theory Spec2Isabelle
  imports Main
begin

section \<open>Errors, events and the external collaborators\<close>

text \<open>
  A thrown JavaScript value, as far as the code inspects it: the catch blocks read
  \<^verbatim>\<open>error.message\<close> (through \<^verbatim>\<open>?.includes\<close>, so it may be missing) and
  \<^verbatim>\<open>error.status\<close>.
\<close>

record js_error =
  message :: "string option"
  status :: "int option"

text \<open>\<^verbatim>\<open>new Error(msg)\<close>: a message and no status.\<close>

definition Error :: "string \<Rightarrow> js_error" where
  "Error msg = \<lparr>message = Some msg, status = None\<rparr>"

text \<open>\<^verbatim>\<open>String.prototype.includes\<close>: the pattern occurs at some position.\<close>

fun str_includes :: "string \<Rightarrow> string \<Rightarrow> bool" where
  "str_includes [] pat = (pat = [])"
| "str_includes (c # cs) pat = (take (length pat) (c # cs) = pat \<or> str_includes cs pat)"

text \<open>
  The test both catch blocks apply (geminiService.ts lines 159 and 258):
  \<^verbatim>\<open>error.message?.includes('403') || error.status === 403 ||
  error.message?.includes('PERMISSION_DENIED')\<close>.
\<close>

definition message_includes :: "js_error \<Rightarrow> string \<Rightarrow> bool" where
  "message_includes error pat =
     (case message error of None \<Rightarrow> False | Some m \<Rightarrow> str_includes m pat)"

definition permission_denied :: "js_error \<Rightarrow> bool" where
  "permission_denied error =
     (message_includes error ''403'' \<or> status error = Some 403 \<or>
      message_includes error ''PERMISSION_DENIED'')"

text \<open>
  Everything the code does to the outside world is appended to a log. Remote requests carry the
  model name and the values interpolated into the prompt; \<open>Call_ensureApiKey\<close> records each
  entry into \<^verbatim>\<open>ensureApiKey\<close> with its argument, so that calls can be counted. Console
  output keeps its text label, which is empty where the code prints the error alone.
\<close>

datatype event =
    Call_ensureApiKey bool
  | HasSelectedApiKey
  | OpenSelectKey
  | GenerateContent string "string list"
  | GenerateVideos string "string list"
  | Sleep nat
  | GetVideosOperation
  | Fetch string
  | Blob
  | Console_error string
  | Console_log string
  | Alert string

text \<open>
  The reply of \<^verbatim>\<open>ai.models.generateContent\<close>, as far as the code reads it: the text, the
  parts of the first candidate (\<^verbatim>\<open>response.candidates?.[0]?.content?.parts\<close>) and the
  grounding chunks of the first candidate
  (\<^verbatim>\<open>response.candidates?.[0]?.groundingMetadata?.groundingChunks\<close>). Each optional chain
  is one optional field.
\<close>

record web_chunk =
  web_uri :: "string option"
  web_title :: "string option"

record grounding_chunk =
  web :: "web_chunk option"

record inline_data =
  data :: "string option"

record part =
  inlineData :: "inline_data option"

record gc_response =
  resp_text :: "string option"
  parts :: "part list option"
  groundingChunks :: "grounding_chunk list option"

text \<open>
  A video operation: \<^verbatim>\<open>operation.done\<close> and
  \<^verbatim>\<open>operation.response?.generatedVideos?.[0]?.video?.uri\<close>.
\<close>

record video_operation =
  op_done :: bool
  op_video_uri :: "string option"

record fetch_response =
  ok :: bool
  fetch_status :: int
  statusText :: string

text \<open>
  Modelled from the spec: the host authorization surface \<^verbatim>\<open>window.aistudio\<close> is not part of
  the repository. Section 6 gives it as \<^verbatim>\<open>hasSelectedApiKey() -> bool\<close> and
  \<^verbatim>\<open>openSelectKey() -> awaits UI completion\<close>. The code tests each member before calling it,
  so each member is optional here. The answer of \<^verbatim>\<open>hasSelectedApiKey\<close> may depend on the
  moment of the call (the length of the log).
\<close>

record aistudio_surface =
  hasSelectedApiKey :: "(nat \<Rightarrow> bool) option"
  openSelectKey :: bool

text \<open>
  Modelled from the spec: the declarations of \<^verbatim>\<open>../types\<close> (\<^verbatim>\<open>BookMetadata\<close>,
  \<^verbatim>\<open>GroundingData\<close>, \<^verbatim>\<open>AppStep\<close>, the tables) are not among the sources. The fields are
  those of section 3 of the specification and of the initial state at lines 98 to 107. Field
  names that occur in two records carry a prefix in one of them.
\<close>

record BookMetadata =
  amazonMarketplace :: string
  category :: string
  targetMarket :: string
  topic :: string
  author :: string
  title :: string
  subtitle :: string
  description :: string

text \<open>\<^verbatim>\<open>Partial<BookMetadata>\<close>, the declared result of \<^verbatim>\<open>generateBookText\<close>: every field
  may be missing. These are the fields the merge of line 152 copies.\<close>

record PartialBookMetadata =
  p_amazonMarketplace :: "string option"
  p_category :: "string option"
  p_targetMarket :: "string option"
  p_topic :: "string option"
  p_author :: "string option"
  p_title :: "string option"
  p_subtitle :: "string option"
  p_description :: "string option"

text \<open>
  A value that \<^verbatim>\<open>JSON.parse\<close> yields. In \<^verbatim>\<open>researchTrends\<close> the code holds it at type
  \<^verbatim>\<open>any\<close> and passes its parts on unchecked (lines 77, 85 and 86), so it is untyped here
  too. A number is kept as the text that \<^verbatim>\<open>String\<close> gives for it (\<^verbatim>\<open>42\<close>, \<^verbatim>\<open>1.5\<close>; zero
  prints as \<^verbatim>\<open>0\<close>), which is all the code observes of it. An object lists its properties,
  each key once.
\<close>

datatype js_value =
    JNull
  | JBool bool
  | JNumber string
  | JString string
  | JArray "js_value list"
  | JObject "(string \<times> js_value) list"

text \<open>What \<^verbatim>\<open>||\<close> tests.\<close>

fun truthy :: "js_value \<Rightarrow> bool" where
  "truthy JNull = False"
| "truthy (JBool b) = b"
| "truthy (JNumber n) = (n \<noteq> ''0'')"
| "truthy (JString s) = (s \<noteq> [])"
| "truthy (JArray xs) = True"
| "truthy (JObject kvs) = True"

text \<open>
  \<^verbatim>\<open>data.key\<close>, for a key that no string and no array has of its own (\<^verbatim>\<open>trends\<close>,
  \<^verbatim>\<open>references\<close>): a TypeError on \<^verbatim>\<open>null\<close>, the property on an object, and undefined
  (\<open>None\<close>) wherever else.
\<close>

fun get_field :: "js_value \<Rightarrow> string \<Rightarrow> js_error + js_value option" where
  "get_field JNull k = Inl (Error ''Cannot read properties of null'')"
| "get_field (JObject kvs) k = Inr (map_of kvs k)"
| "get_field v k = Inr None"

text \<open>\<^verbatim>\<open>a || b\<close> where \<open>a\<close> may be undefined.\<close>

definition js_or :: "js_value option \<Rightarrow> js_value \<Rightarrow> js_value" where
  "js_or a b = (case a of None \<Rightarrow> b | Some v \<Rightarrow> if truthy v then v else b)"

text \<open>
  What a template literal prints for a value (\<^verbatim>\<open>${research.trends}\<close> at line 162): an
  array prints its elements joined by commas, \<^verbatim>\<open>null\<close> elements as nothing.
\<close>

fun join_comma :: "string list \<Rightarrow> string" where
  "join_comma [] = []"
| "join_comma [x] = x"
| "join_comma (x # y # zs) = x @ '','' @ join_comma (y # zs)"

fun to_string :: "js_value \<Rightarrow> string" where
  "to_string JNull = ''null''"
| "to_string (JBool b) = (if b then ''true'' else ''false'')"
| "to_string (JNumber n) = n"
| "to_string (JString s) = s"
| "to_string (JArray xs) = join_comma (map (\<lambda>x. if x = JNull then [] else to_string x) xs)"
| "to_string (JObject kvs) = ''[object Object]''"

record source_link =
  uri :: "string option"
  src_title :: "string option"

text \<open>
  The object \<^verbatim>\<open>researchTrends\<close> returns, as it is at run time: \<^verbatim>\<open>trends\<close> and
  \<^verbatim>\<open>references\<close> are whatever the parsed reply held, or the defaults.
\<close>

record GroundingData =
  trends :: js_value
  references :: js_value
  sources :: "source_link list"

text \<open>
  Modelled from the spec: the declaration of \<^verbatim>\<open>GroundingData\<close> is not among the sources.
  Section 3 gives it as a research summary text, a list of reference entries (title, author,
  visual-hook text) and a list of source links (uri, title). A value is well-formed when it
  has that shape.
\<close>

definition is_reference :: "js_value \<Rightarrow> bool" where
  "is_reference v =
     (case v of
        JObject kvs \<Rightarrow>
          list_all (\<lambda>k. case map_of kvs k of Some (JString s) \<Rightarrow> True | _ \<Rightarrow> False)
            [''title'', ''author'', ''visualHook'']
      | _ \<Rightarrow> False)"

definition is_reference_list :: "js_value \<Rightarrow> bool" where
  "is_reference_list v = (case v of JArray rs \<Rightarrow> list_all is_reference rs | _ \<Rightarrow> False)"

definition is_text :: "js_value \<Rightarrow> bool" where
  "is_text v = (case v of JString s \<Rightarrow> True | _ \<Rightarrow> False)"

definition well_formed :: "GroundingData \<Rightarrow> bool" where
  "well_formed g =
     (is_text (trends g) \<and> is_reference_list (references g) \<and>
      list_all (\<lambda>l. uri l \<noteq> None \<and> src_title l \<noteq> None) (sources g))"

text \<open>The entries of \<^verbatim>\<open>TRANSLATIONS[language]\<close> that the handlers read.\<close>

record ui_strings =
  analyzing :: string
  crafting :: string
  painting :: string
  errorKey :: string
  applyingEdits :: string
  errorEdit :: string

text \<open>
  The environment of one run. The remote service is any function from the moment of the call
  (the length of the log) to an outcome, \<open>Inl\<close> for a rejected promise. \<^verbatim>\<open>JSON.parse\<close> is a
  builtin; it is a parameter, \<open>None\<close> where it throws. In \<^verbatim>\<open>researchTrends\<close> its result is
  untyped; in \<^verbatim>\<open>generateBookText\<close> it is read at the declared result type
  \<^verbatim>\<open>Partial<BookMetadata>\<close>. \<^verbatim>\<open>new GoogleGenAI(...)\<close> is the constructor of the client
  library, which throws when no API key is set: \<open>Some\<close> of what it throws, at the moment of
  the call.
  \<^verbatim>\<open>LANGUAGES\<close>, \<^verbatim>\<open>MARKETPLACES\<close> and \<^verbatim>\<open>TRANSLATIONS\<close> are tables of
  \<^verbatim>\<open>../types\<close>, the first two as (code, label) and (id, name) pairs. An oracle is asked at the position its request takes in
  the log.
\<close>

record env =
  new_GoogleGenAI :: "nat \<Rightarrow> js_error option"
  aistudio :: "aistudio_surface option"
  ai_generateContent :: "nat \<Rightarrow> js_error + gc_response"
  ai_generateVideos :: "nat \<Rightarrow> js_error + video_operation"
  ai_getVideosOperation :: "nat \<Rightarrow> js_error + video_operation"
  fetch :: "nat \<Rightarrow> js_error + fetch_response"
  blob_url :: "nat \<Rightarrow> js_error + string"
  JSON_parse_research :: "string \<Rightarrow> js_value option"
  JSON_parse_metadata :: "string \<Rightarrow> PartialBookMetadata option"
  LANGUAGES :: "(string \<times> string) list"
  MARKETPLACES :: "(string \<times> string) list"
  TRANSLATIONS :: "string \<Rightarrow> ui_strings"
  API_KEY :: string

text \<open>\<^verbatim>\<open>a || b\<close> on strings that may be undefined: the empty string is falsy.\<close>

definition or_else :: "string option \<Rightarrow> string \<Rightarrow> string" where
  "or_else a b = (case a of None \<Rightarrow> b | Some s \<Rightarrow> if s = [] then b else s)"

text \<open>\<^verbatim>\<open>TABLE.find(x => x.key === k)?.value\<close>.\<close>

definition find_value :: "(string \<times> string) list \<Rightarrow> string \<Rightarrow> string option" where
  "find_value table k = map_option snd (find (\<lambda>x. fst x = k) table)"

section \<open>geminiService.ts\<close>

text \<open>
  Each function below takes the log so far and returns its result with the log extended; a
  result is \<open>Inl\<close> for a rejected promise and \<open>Inr\<close> for a fulfilled one. \<^verbatim>\<open>getAI()\<close>
  builds a client handle for each call and is not logged. In \<^verbatim>\<open>researchTrends\<close> it stands
  at line 24, before the \<^verbatim>\<open>try\<close> of line 33, and what it throws leaves the function; that
  path is part of the model. The other functions are modelled from the point where their
  handle is built.
\<close>

subsection \<open>ensureApiKey\<close>

definition ensureApiKey :: "env \<Rightarrow> bool \<Rightarrow> event list \<Rightarrow> event list" where
  "ensureApiKey e force tr =
     (let tr0 = tr @ [Call_ensureApiKey force] in
      case aistudio e of
        None \<Rightarrow> tr0
      | Some win_aistudio \<Rightarrow>
          (let (hasKey, tr1) =
                 (case hasSelectedApiKey win_aistudio of
                    None \<Rightarrow> (False, tr0)
                  | Some f \<Rightarrow> (f (length tr0), tr0 @ [HasSelectedApiKey]))
           in if force \<or> \<not> hasKey
              then (if openSelectKey win_aistudio then tr1 @ [OpenSelectKey] else tr1)
              else tr1))"

subsection \<open>researchTrends\<close>

text \<open>What \<^verbatim>\<open>JSON.parse\<close> throws; no handler reads it.\<close>

definition SyntaxError :: js_error where
  "SyntaxError = Error ''JSON.parse''"

text \<open>Lines 80 to 82: the links of the grounding chunks that have a \<^verbatim>\<open>web\<close> part.\<close>

definition sources_of :: "gc_response \<Rightarrow> source_link list" where
  "sources_of response =
     (case groundingChunks response of
        None \<Rightarrow> []
      | Some chunks \<Rightarrow>
          List.map_filter
            (\<lambda>chunk. case web chunk of
                       None \<Rightarrow> None
                     | Some w \<Rightarrow> Some \<lparr>uri = web_uri w, src_title = web_title w\<rparr>)
            chunks)"

text \<open>
  The body of the \<^verbatim>\<open>try\<close> block after the remote call has settled (lines 76 to 88): the
  parse, the sources, then the reads \<^verbatim>\<open>data.trends\<close> and \<^verbatim>\<open>data.references\<close>, which
  throw on \<^verbatim>\<open>null\<close>.
\<close>

definition researchTrends_try :: "env \<Rightarrow> js_error + gc_response \<Rightarrow> js_error + GroundingData" where
  \<open>researchTrends_try e outcome =
     (case outcome of
        Inl error \<Rightarrow> Inl error
      | Inr response \<Rightarrow>
          (case JSON_parse_research e
                  (or_else (resp_text response) ''{"trends": "", "references": []}'') of
             None \<Rightarrow> Inl SyntaxError
           | Some data' \<Rightarrow>
               (let sources' = sources_of response in
                case get_field data' ''trends'' of
                  Inl error \<Rightarrow> Inl error
                | Inr data_trends \<Rightarrow>
                    (case get_field data' ''references'' of
                       Inl error \<Rightarrow> Inl error
                     | Inr data_references \<Rightarrow>
                         Inr \<lparr>trends = js_or data_trends (JString ''Analysis complete.''),
                              references = js_or data_references (JArray []),
                              sources = sources'\<rparr>))))\<close>

definition researchTrends ::
  "env \<Rightarrow> string \<Rightarrow> string \<Rightarrow> string \<Rightarrow> string \<Rightarrow> string \<Rightarrow> event list
     \<Rightarrow> (js_error + GroundingData) \<times> event list" where
  "researchTrends e category' topic' targetMarket' marketplaceId language tr =
     (case new_GoogleGenAI e (length tr) of
        Some error \<Rightarrow> (Inl error, tr)
      | None \<Rightarrow>
          (let langLabel = or_else (find_value (LANGUAGES e) language) ''English'';
               marketplaceName = or_else (find_value (MARKETPLACES e) marketplaceId) ''Amazon'';
               searchContext =
                 (if targetMarket' \<noteq> [] then targetMarket' else category' @ '' books'');
               tr1 = tr @ [GenerateContent ''gemini-3-flash-preview''
                             [searchContext, marketplaceName, topic', langLabel]]
           in case researchTrends_try e (ai_generateContent e (length tr)) of
                Inr result \<Rightarrow> (Inr result, tr1)
              | Inl error \<Rightarrow>
                  (Inr \<lparr>trends =
                          JString ''Unable to fetch live trends. Using general design principles.'',
                        references = JArray [],
                        sources = []\<rparr>,
                   tr1 @ [Console_error ''Trend research failed''])))"

subsection \<open>generateBookText\<close>

definition placeholder :: PartialBookMetadata where
  "placeholder =
     \<lparr>p_amazonMarketplace = None, p_category = None, p_targetMarket = None, p_topic = None,
      p_author = None, p_title = Some ''Untitled'', p_subtitle = Some [],
      p_description = Some []\<rparr>"

definition generateBookText ::
  "env \<Rightarrow> string \<Rightarrow> string \<Rightarrow> string \<Rightarrow> string \<Rightarrow> event list
     \<Rightarrow> (js_error + PartialBookMetadata) \<times> event list" where
  "generateBookText e topic' category' author' language tr =
     (let langLabel = or_else (find_value (LANGUAGES e) language) ''English'';
          tr1 = tr @ [GenerateContent ''gemini-3-flash-preview''
                        [category', topic', author', langLabel]]
      in case ai_generateContent e (length tr) of
           Inl error \<Rightarrow> (Inl error, tr1)
         | Inr response \<Rightarrow>
             (case JSON_parse_metadata e (or_else (resp_text response) ''{}'') of
                Some parsed \<Rightarrow> (Inr parsed, tr1)
              | None \<Rightarrow> (Inr placeholder, tr1)))"

subsection \<open>generateSingleImage and generateCoverImages\<close>

text \<open>
  The loop over \<^verbatim>\<open>response.candidates?.[0]?.content?.parts || []\<close> returns at the first part
  with inline data; \<^verbatim>\<open>${part.inlineData.data}\<close> prints a missing value as \<^verbatim>\<open>undefined\<close>.
\<close>

definition first_inline_image :: "gc_response \<Rightarrow> string option" where
  "first_inline_image response =
     (case find (\<lambda>p. inlineData p \<noteq> None)
             (case parts response of None \<Rightarrow> [] | Some ps \<Rightarrow> ps) of
        None \<Rightarrow> None
      | Some p \<Rightarrow>
          (case inlineData p of
             None \<Rightarrow> None
           | Some i \<Rightarrow>
               Some (''data:image/png;base64,'' @
                     (case data i of None \<Rightarrow> ''undefined'' | Some d \<Rightarrow> d))))"

function generateSingleImage ::
  "env \<Rightarrow> string \<Rightarrow> bool \<Rightarrow> event list \<Rightarrow> (js_error + string) \<times> event list" where
  "generateSingleImage e prompt retry tr =
     (let tr1 = tr @ [GenerateContent ''gemini-3-pro-image-preview'' [prompt]];
          attempt =
            (case ai_generateContent e (length tr) of
               Inl error \<Rightarrow> Inl error
             | Inr response \<Rightarrow>
                 (case first_inline_image response of
                    Some img \<Rightarrow> Inr img
                  | None \<Rightarrow> Inl (Error ''No image generated in this attempt'')))
      in case attempt of
           Inr img \<Rightarrow> (Inr img, tr1)
         | Inl error \<Rightarrow>
             if retry \<and> permission_denied error
             then generateSingleImage e prompt False
                    (ensureApiKey e True
                       (tr1 @ [Console_log
                                 ''Permission denied, prompting for key selection again...'']))
             else (Inl error, tr1))"
  by pat_completeness auto
termination
  by (relation "measure (\<lambda>(e, prompt, retry, tr). if retry then 1 else 0)") auto

text \<open>
  \<^verbatim>\<open>xs.map(f)\<close> for an effectful \<open>f\<close>, and \<^verbatim>\<open>Promise.all\<close>: all results in the order of
  the promises, or a rejection. The model differs from the code in two places. The code
  sends the three image requests before it handles any reply, and the steps of the three
  calls interleave as the replies settle; the model runs the calls one after the other, so
  the order of the log between different calls is not the code's. With several rejections
  \<^verbatim>\<open>Promise.all\<close> rejects with the one that settles first, while the others still run; the
  model takes the first in list order, and its log of a batch is complete when the batch
  returns.
\<close>

fun map_io :: "('a \<Rightarrow> event list \<Rightarrow> 'b \<times> event list) \<Rightarrow> 'a list \<Rightarrow> event list
                 \<Rightarrow> 'b list \<times> event list" where
  "map_io f [] tr = ([], tr)"
| "map_io f (x # xs) tr =
     (let (y, tr1) = f x tr; (ys, tr2) = map_io f xs tr1 in (y # ys, tr2))"

fun Promise_all :: "(js_error + 'a) list \<Rightarrow> js_error + 'a list" where
  "Promise_all [] = Inr []"
| "Promise_all (Inl error # rs) = Inl error"
| "Promise_all (Inr x # rs) =
     (case Promise_all rs of Inl error \<Rightarrow> Inl error | Inr xs \<Rightarrow> Inr (x # xs))"

definition generateCoverImages ::
  "env \<Rightarrow> string \<Rightarrow> event list \<Rightarrow> (js_error + string list) \<times> event list" where
  "generateCoverImages e prompt tr =
     (let tr0 = ensureApiKey e False tr;
          (promises, tr1) =
             map_io (\<lambda>_. generateSingleImage e prompt True) [1, 2, 3 :: nat] tr0
      in case Promise_all promises of
           Inr results \<Rightarrow> (Inr results, tr1)
         | Inl error \<Rightarrow> (Inl error, tr1 @ [Console_error ''Image generation failed'']))"

subsection \<open>editCoverImage\<close>

text \<open>\<^verbatim>\<open>s.split(',')\<close> and \<^verbatim>\<open>xs[1]\<close>, which is undefined on a list of one element.\<close>

fun split_on :: "char \<Rightarrow> string \<Rightarrow> string list" where
  "split_on sep [] = [[]]"
| "split_on sep (c # cs) =
     (if c = sep then [] # split_on sep cs
      else (case split_on sep cs of [] \<Rightarrow> [[c]] | w # ws \<Rightarrow> (c # w) # ws))"

definition cleanBase64_of :: "string \<Rightarrow> string option" where
  "cleanBase64_of imageBase64 =
     (case split_on (CHR '','') imageBase64 of
        _ # second # _ \<Rightarrow> Some second
      | _ \<Rightarrow> None)"

definition editCoverImage ::
  "env \<Rightarrow> string \<Rightarrow> string \<Rightarrow> event list \<Rightarrow> (js_error + string) \<times> event list" where
  "editCoverImage e imageBase64 instruction tr =
     (let cleanBase64 = cleanBase64_of imageBase64;
          tr1 = tr @ [GenerateContent ''gemini-2.5-flash-image''
                        ((case cleanBase64 of None \<Rightarrow> [] | Some b \<Rightarrow> [b]) @ [instruction])];
          attempt =
            (case ai_generateContent e (length tr) of
               Inl error \<Rightarrow> Inl error
             | Inr response \<Rightarrow>
                 (case first_inline_image response of
                    Some img \<Rightarrow> Inr img
                  | None \<Rightarrow> Inl (Error ''No edited image returned'')))
      in case attempt of
           Inr img \<Rightarrow> (Inr img, tr1)
         | Inl error \<Rightarrow> (Inl error, tr1 @ [Console_error ''Image editing failed'']))"

subsection \<open>generateVeoVideo\<close>

text \<open>
  The polling loop of lines 240 to 243. It has no bound: where the remote job never reports
  \<^verbatim>\<open>done\<close> the loop does not return, which is the value \<open>None\<close>.
\<close>

partial_function (option) poll_operation ::
  "env \<Rightarrow> video_operation \<Rightarrow> event list
     \<Rightarrow> ((js_error + video_operation) \<times> event list) option" where
  "poll_operation e operation tr =
     (if op_done operation then Some (Inr operation, tr)
      else (case ai_getVideosOperation e (Suc (length tr)) of
              Inl error \<Rightarrow> Some (Inl error, tr @ [Sleep 5000, GetVideosOperation])
            | Inr operation' \<Rightarrow>
                poll_operation e operation' (tr @ [Sleep 5000, GetVideosOperation])))"

text \<open>The body of the \<^verbatim>\<open>try\<close> block of \<^verbatim>\<open>generate\<close> (lines 226 to 255).\<close>

definition generate_try ::
  "env \<Rightarrow> string \<Rightarrow> string \<Rightarrow> event list \<Rightarrow> ((js_error + string) \<times> event list) option" where
  "generate_try e imageBase64 prompt tr =
     (let cleanBase64 = cleanBase64_of imageBase64;
          tr1 = tr @ [GenerateVideos ''veo-3.1-fast-generate-preview''
                        ((case cleanBase64 of None \<Rightarrow> [] | Some b \<Rightarrow> [b]) @
                         [or_else (Some prompt)
                            ''Cinematic camera movement bringing this book cover to life.''])]
      in case ai_generateVideos e (length tr) of
           Inl error \<Rightarrow> Some (Inl error, tr1)
         | Inr operation0 \<Rightarrow>
             (case poll_operation e operation0 tr1 of
                None \<Rightarrow> None
              | Some (Inl error, tr2) \<Rightarrow> Some (Inl error, tr2)
              | Some (Inr operation, tr2) \<Rightarrow>
                  (let videoUri = or_else (op_video_uri operation) [] in
                   if videoUri = []
                   then Some (Inl (Error ''Video generation failed to return URI''), tr2)
                   else
                     (let tr3 = tr2 @ [Fetch (videoUri @ ''&key='' @ API_KEY e)] in
                      case fetch e (length tr2) of
                        Inl error \<Rightarrow> Some (Inl error, tr3)
                      | Inr videoResponse \<Rightarrow>
                          if \<not> ok videoResponse
                          then (if fetch_status videoResponse = 403
                                then Some (Inl (Error ''PERMISSION_DENIED''), tr3)
                                else Some (Inl (Error (''Video fetch failed: '' @
                                                       statusText videoResponse)), tr3))
                          else (case blob_url e (length tr3) of
                                  Inl error \<Rightarrow> Some (Inl error, tr3 @ [Blob])
                                | Inr url \<Rightarrow> Some (Inr url, tr3 @ [Blob]))))))"

function generate ::
  "env \<Rightarrow> string \<Rightarrow> string \<Rightarrow> bool \<Rightarrow> event list
     \<Rightarrow> ((js_error + string) \<times> event list) option" where
  "generate e imageBase64 prompt retry tr =
     (case generate_try e imageBase64 prompt tr of
        None \<Rightarrow> None
      | Some (Inr url, tr1) \<Rightarrow> Some (Inr url, tr1)
      | Some (Inl error, tr1) \<Rightarrow>
          if retry \<and> permission_denied error
          then generate e imageBase64 prompt False
                 (ensureApiKey e True
                    (tr1 @ [Console_log
                              ''Permission denied for Veo, prompting for key selection again...'']))
          else Some (Inl error, tr1))"
  by pat_completeness auto
termination
  by (relation "measure (\<lambda>(e, imageBase64, prompt, retry, tr). if retry then 1 else 0)") auto

definition generateVeoVideo ::
  "env \<Rightarrow> string \<Rightarrow> string \<Rightarrow> event list \<Rightarrow> ((js_error + string) \<times> event list) option" where
  "generateVeoVideo e imageBase64 prompt tr =
     (case generate e imageBase64 prompt True (ensureApiKey e False tr) of
        None \<Rightarrow> None
      | Some (Inr url, tr1) \<Rightarrow> Some (Inr url, tr1)
      | Some (Inl error, tr1) \<Rightarrow> Some (Inl error, tr1 @ [Console_error ''Veo generation failed'']))"

section \<open>App: the generation orchestrator\<close>

text \<open>The four stages, as line 315 lists them.\<close>

datatype AppStep = DETAILS | RESEARCH | GENERATION | VIDEO

text \<open>The \<^verbatim>\<open>useState\<close> cells of \<^verbatim>\<open>App\<close> (lines 92 to 115).\<close>

record app_state =
  step :: AppStep
  isLoading :: bool
  statusMessage :: string
  language :: string
  metadata :: BookMetadata
  groundingData :: "GroundingData option"
  generatedImages :: "string list"
  coverImage :: "string option"
  videoUrl :: "string option"
  editPrompt :: string
  videoPrompt :: string

text \<open>\<^verbatim>\<open>{ ...prev, ...textData }\<close>: a field of \<open>textData\<close> that is present wins.\<close>

definition spread :: "BookMetadata \<Rightarrow> PartialBookMetadata \<Rightarrow> BookMetadata" where
  "spread prev textData =
     \<lparr>amazonMarketplace = case_option (amazonMarketplace prev) id (p_amazonMarketplace textData),
      category = case_option (category prev) id (p_category textData),
      targetMarket = case_option (targetMarket prev) id (p_targetMarket textData),
      topic = case_option (topic prev) id (p_topic textData),
      author = case_option (author prev) id (p_author textData),
      title = case_option (title prev) id (p_title textData),
      subtitle = case_option (subtitle prev) id (p_subtitle textData),
      description = case_option (description prev) id (p_description textData)\<rparr>"

definition nl :: string where
  "nl = [CHR 0x0A]"

text \<open>The template of lines 157 to 170.\<close>

definition imagePrompt_of :: "string \<Rightarrow> string \<Rightarrow> string \<Rightarrow> string \<Rightarrow> string \<Rightarrow> string" where
  "imagePrompt_of category' marketplaceName niche topic' trends' =
     nl @ ''        Create a stunning, high-resolution book cover art (NO TEXT) for a '' @
       category' @ '' book.'' @ nl @
     ''        Marketplace: '' @ marketplaceName @ ''.'' @ nl @
     ''        Niche: '' @ niche @ ''.'' @ nl @
     ''        Topic: '' @ topic' @ ''.'' @ nl @
     ''        Art Direction: '' @ trends' @ ''.'' @ nl @
     ''        '' @ nl @
     ''        CRITICAL COMPOSITION RULES:'' @ nl @
     ''        1. TOP 40% of the image MUST be a PLAIN, SOLID, DARK or NEUTRAL BACKGROUND (sky, wall, void). '' @ nl @
     ''        2. NO complex details, NO faces, NO objects in the TOP 40% to ensure title readability.'' @ nl @
     ''        3. The MAIN SUBJECT/CHARACTER/ACTION must be strictly contained in the BOTTOM 60% of the frame.'' @ nl @
     ''        '' @ nl @
     ''        Style: Professional, polished, cinematic lighting.'' @ nl @
     ''      ''"

text \<open>
  The \<^verbatim>\<open>try\<close> block of \<^verbatim>\<open>startProcess\<close> (lines 135 to 176). \<open>s0\<close> is the state the
  handler was created in (its closure reads \<^verbatim>\<open>metadata\<close> and \<^verbatim>\<open>language\<close> there), \<open>s\<close>
  the state the setters have reached. \<^verbatim>\<open>images[0]\<close> is undefined on an empty list.
\<close>

definition startProcess_try ::
  "env \<Rightarrow> app_state \<Rightarrow> app_state \<Rightarrow> event list
     \<Rightarrow> (js_error + unit) \<times> app_state \<times> event list" where
  "startProcess_try e s0 s tr =
     (let t = TRANSLATIONS e (language s0);
          m = metadata s0;
          marketplaceName = or_else (find_value (MARKETPLACES e) (amazonMarketplace m)) ''Amazon'';
          niche = (if targetMarket m \<noteq> [] then targetMarket m else category m);
          s1 = s\<lparr>statusMessage :=
                    analyzing t @ '' '' @ marketplaceName @ '' ('' @ niche @ '')...''\<rparr>
      in case researchTrends e (category m) (topic m) (targetMarket m) (amazonMarketplace m)
                (language s0) tr of
           (Inl error, tr1) \<Rightarrow> (Inl error, s1, tr1)
         | (Inr research, tr1) \<Rightarrow>
             (let s2 = s1\<lparr>groundingData := Some research, statusMessage := crafting t\<rparr>
              in case generateBookText e (topic m) (category m) (author m) (language s0) tr1 of
                   (Inl error, tr2) \<Rightarrow> (Inl error, s2, tr2)
                 | (Inr textData, tr2) \<Rightarrow>
                     (let s3 = s2\<lparr>metadata := spread (metadata s2) textData,
                                   statusMessage := painting t\<rparr>;
                          imagePrompt = imagePrompt_of (category m) marketplaceName niche
                                          (topic m) (to_string (trends research))
                      in case generateCoverImages e imagePrompt tr2 of
                           (Inl error, tr3) \<Rightarrow> (Inl error, s3, tr3)
                         | (Inr images, tr3) \<Rightarrow>
                             (Inr (),
                              s3\<lparr>generatedImages := images,
                                 coverImage := (case images of [] \<Rightarrow> None | i # _ \<Rightarrow> Some i),
                                 step := GENERATION\<rparr>,
                              tr3))))"

definition startProcess :: "env \<Rightarrow> app_state \<Rightarrow> event list \<Rightarrow> app_state \<times> event list" where
  "startProcess e s tr =
     (if topic (metadata s) = [] \<or> author (metadata s) = []
      then (s, tr @ [Alert ''Please enter a topic and author name.''])
      else
        (let t = TRANSLATIONS e (language s);
             (outcome, s', tr') = startProcess_try e s (s\<lparr>step := RESEARCH, isLoading := True\<rparr>) tr;
             tr'' = (case outcome of
                       Inr _ \<Rightarrow> tr'
                     | Inl error \<Rightarrow> tr' @ [Console_error [], Alert (errorKey t)])
         in (s'\<lparr>isLoading := False, statusMessage := []\<rparr>, tr'')))"

text \<open>\<^verbatim>\<open>handleEditImage\<close> (lines 186 to 200); \<^verbatim>\<open>!coverImage\<close> holds for null and for the
  empty string.\<close>

definition handleEditImage :: "env \<Rightarrow> app_state \<Rightarrow> event list \<Rightarrow> app_state \<times> event list" where
  "handleEditImage e s tr =
     (case coverImage s of
        None \<Rightarrow> (s, tr)
      | Some current \<Rightarrow>
          if current = [] \<or> editPrompt s = [] then (s, tr)
          else
            (let t = TRANSLATIONS e (language s);
                 s1 = s\<lparr>isLoading := True, statusMessage := applyingEdits t\<rparr>;
                 (outcome, tr1) = editCoverImage e current (editPrompt s) tr;
                 (s2, tr2) =
                    (case outcome of
                       Inr newImage \<Rightarrow> (s1\<lparr>coverImage := Some newImage, editPrompt := []\<rparr>, tr1)
                     | Inl error \<Rightarrow> (s1, tr1 @ [Alert (errorEdit t)]))
             in (s2\<lparr>isLoading := False, statusMessage := []\<rparr>, tr2)))"

section \<open>Observations on the log, and example environments\<close>

declare generateSingleImage.simps [simp del]
declare generate.simps [simp del]

text \<open>What \<^verbatim>\<open>ensureApiKey\<close> reads as \<^verbatim>\<open>hasKey\<close>: false where the surface has no
  \<^verbatim>\<open>hasSelectedApiKey\<close>.\<close>

definition hasKey :: "aistudio_surface \<Rightarrow> nat \<Rightarrow> bool" where
  "hasKey h n = (case hasSelectedApiKey h of None \<Rightarrow> False | Some f \<Rightarrow> f n)"

text \<open>The requests that start a generation, the calls on the host surface, and what one video
  attempt does after its request.\<close>

fun is_request :: "event \<Rightarrow> bool" where
  "is_request (GenerateContent m a) = True"
| "is_request (GenerateVideos m a) = True"
| "is_request _ = False"

fun is_host_event :: "event \<Rightarrow> bool" where
  "is_host_event HasSelectedApiKey = True"
| "is_host_event OpenSelectKey = True"
| "is_host_event _ = False"

fun is_poll_event :: "event \<Rightarrow> bool" where
  "is_poll_event (Sleep n) = True"
| "is_poll_event GetVideosOperation = True"
| "is_poll_event (Fetch u) = True"
| "is_poll_event Blob = True"
| "is_poll_event _ = False"

text \<open>
  A parsed reply and grounding chunks of the shape the request's schema asks for: the trends,
  where present, a text; the references, where present, a list of entries; every web chunk
  with its uri and its title.
\<close>

definition well_typed_reply :: "(string \<times> js_value) list \<Rightarrow> gc_response \<Rightarrow> bool" where
  "well_typed_reply kvs response =
     ((case map_of kvs ''trends'' of None \<Rightarrow> True | Some v \<Rightarrow> is_text v) \<and>
      (case map_of kvs ''references'' of None \<Rightarrow> True | Some v \<Rightarrow> is_reference_list v) \<and>
      (case groundingChunks response of
         None \<Rightarrow> True
       | Some chunks \<Rightarrow>
           list_all (\<lambda>chunk. case web chunk of
                               None \<Rightarrow> True
                             | Some w \<Rightarrow> web_uri w \<noteq> None \<and> web_title w \<noteq> None)
             chunks))"

text \<open>The object \<^verbatim>\<open>{}\<close>.\<close>

definition empty_object :: PartialBookMetadata where
  "empty_object =
     \<lparr>p_amazonMarketplace = None, p_category = None, p_targetMarket = None, p_topic = None,
      p_author = None, p_title = None, p_subtitle = None, p_description = None\<rparr>"

text \<open>Example values: two errors, a string table, and \<^verbatim>\<open>JSON.parse\<close> on the texts the examples
  use (it rejects the empty text and prose).\<close>

definition forbidden :: js_error where
  "forbidden = \<lparr>message = Some ''got status: 403 Forbidden'', status = Some 403\<rparr>"

definition unreachable :: js_error where
  "unreachable = Error ''Failed to fetch''"

definition strings_en :: ui_strings where
  "strings_en =
     \<lparr>analyzing = ''Analyzing'', crafting = ''Crafting title...'', painting = ''Painting cover...'',
      errorKey = ''Something went wrong. Check your API key.'',
      applyingEdits = ''Applying edits...'', errorEdit = ''Edit failed.''\<rparr>"

definition parse_metadata_examples :: "string \<Rightarrow> PartialBookMetadata option" where
  \<open>parse_metadata_examples s =
     (if s = ''{}'' then Some empty_object
      else if s = ''{"title":"The Calm Mind","subtitle":"Stoicism in ten lessons","description":"Start here."}''
      then Some (empty_object\<lparr>p_title := Some ''The Calm Mind'',
                               p_subtitle := Some ''Stoicism in ten lessons'',
                               p_description := Some ''Start here.''\<rparr>)
      else if s = ''{"author":"Marcus Aurelius"}''
      then Some (empty_object\<lparr>p_author := Some ''Marcus Aurelius''\<rparr>)
      else None)\<close>

definition parse_research_examples :: "string \<Rightarrow> js_value option" where
  \<open>parse_research_examples s =
     (if s = ''{"trends": "", "references": []}''
      then Some (JObject [(''trends'', JString []), (''references'', JArray [])])
      else if s = ''{"trends":"Bold serif titles on dark backgrounds."}''
      then Some (JObject [(''trends'', JString ''Bold serif titles on dark backgrounds.'')])
      else if s = ''{"trends": 42, "references": "abc"}''
      then Some (JObject [(''trends'', JNumber ''42''), (''references'', JString ''abc'')])
      else if s = ''null'' then Some JNull
      else None)\<close>

text \<open>No host surface, a client that can be built, and a remote service that cannot be
  reached.\<close>

definition offline_env :: env where
  "offline_env =
     \<lparr>new_GoogleGenAI = (\<lambda>_. None),
      aistudio = None,
      ai_generateContent = (\<lambda>_. Inl unreachable),
      ai_generateVideos = (\<lambda>_. Inl unreachable),
      ai_getVideosOperation = (\<lambda>_. Inl unreachable),
      fetch = (\<lambda>_. Inl unreachable),
      blob_url = (\<lambda>_. Inl unreachable),
      JSON_parse_research = parse_research_examples,
      JSON_parse_metadata = parse_metadata_examples,
      LANGUAGES = [(''it'', ''Italiano''), (''en'', ''English'')],
      MARKETPLACES = [(''it'', ''Amazon.it''), (''com'', ''Amazon.com'')],
      TRANSLATIONS = (\<lambda>_. strings_en),
      API_KEY = ''key''\<rparr>"

definition text_reply :: "string option \<Rightarrow> gc_response" where
  "text_reply t = \<lparr>resp_text = t, parts = None, groundingChunks = None\<rparr>"

definition image_reply :: gc_response where
  "image_reply =
     \<lparr>resp_text = None,
      parts = Some [\<lparr>inlineData = None\<rparr>, \<lparr>inlineData = Some \<lparr>data = Some ''iVBORw0KGgo=''\<rparr>\<rparr>],
      groundingChunks = None\<rparr>"

text \<open>A remote service that answers the research request, then the text request with the given
  text, then every image request with an image.\<close>

definition pipeline_env :: "string option \<Rightarrow> env" where
  \<open>pipeline_env t =
     offline_env\<lparr>ai_generateContent :=
       (\<lambda>n. if n = 0
            then Inr (text_reply (Some ''{"trends":"Bold serif titles on dark backgrounds."}''))
            else if n = 1 then Inr (text_reply t)
            else Inr image_reply)\<rparr>\<close>

text \<open>A host surface with a key selected, and a remote service that refuses every request.\<close>

definition denied_env :: env where
  "denied_env =
     offline_env\<lparr>aistudio := Some \<lparr>hasSelectedApiKey = Some (\<lambda>_. True), openSelectKey = True\<rparr>,
                 ai_generateContent := (\<lambda>_. Inl forbidden),
                 ai_generateVideos := (\<lambda>_. Inl forbidden)\<rparr>"

text \<open>A remote service that answers every request with the given text and no parts, and one
  that answers every request with an image.\<close>

definition reply_env :: "string option \<Rightarrow> env" where
  "reply_env t = offline_env\<lparr>ai_generateContent := (\<lambda>_. Inr (text_reply t))\<rparr>"

definition painter_env :: env where
  "painter_env = offline_env\<lparr>ai_generateContent := (\<lambda>_. Inr image_reply)\<rparr>"

text \<open>
  A host surface with a key selected and a video service whose download is refused once. The
  first video request (position 2 of the log) starts a job that is done at the first poll
  (position 4); the download (position 5) answers with status 403. After the key selection
  the second request (position 10) returns a finished job, whose download and blob succeed.
\<close>

definition video_env :: env where
  "video_env =
     offline_env\<lparr>aistudio := Some \<lparr>hasSelectedApiKey = Some (\<lambda>_. True), openSelectKey = True\<rparr>,
       ai_generateVideos :=
         (\<lambda>n. if n = 2 then Inr \<lparr>op_done = False, op_video_uri = None\<rparr>
              else Inr \<lparr>op_done = True, op_video_uri = Some ''https://v/2?alt=media''\<rparr>),
       ai_getVideosOperation :=
         (\<lambda>_. Inr \<lparr>op_done = True, op_video_uri = Some ''https://v/1?alt=media''\<rparr>),
       fetch :=
         (\<lambda>n. if n = 5 then Inr \<lparr>ok = False, fetch_status = 403, statusText = ''Forbidden''\<rparr>
              else Inr \<lparr>ok = True, fetch_status = 200, statusText = ''OK''\<rparr>),
       blob_url := (\<lambda>_. Inr ''blob:cover-video'')\<rparr>"

text \<open>No API key: the constructor of the client throws.\<close>

definition missing_key :: js_error where
  "missing_key = Error ''An API Key must be set when running in a browser''"

definition no_key_env :: env where
  "no_key_env = offline_env\<lparr>new_GoogleGenAI := (\<lambda>_. Some missing_key)\<rparr>"

text \<open>A host object \<^verbatim>\<open>window.aistudio = {}\<close>, with neither member.\<close>

definition bare_surface :: aistudio_surface where
  "bare_surface = \<lparr>hasSelectedApiKey = None, openSelectKey = False\<rparr>"

definition bare_surface_env :: env where
  "bare_surface_env = offline_env\<lparr>aistudio := Some bare_surface\<rparr>"

text \<open>The initial state of \<^verbatim>\<open>App\<close>, and the state of the example of section 8.\<close>

definition initial_state :: app_state where
  "initial_state =
     \<lparr>step = DETAILS, isLoading = False, statusMessage = [], language = ''it'',
      metadata = \<lparr>amazonMarketplace = ''it'', category = ''Self-Help'', targetMarket = [],
                  topic = [], author = [], title = [], subtitle = [], description = []\<rparr>,
      groundingData = None, generatedImages = [], coverImage = None, videoUrl = None,
      editPrompt = [], videoPrompt = []\<rparr>"

definition stoic_state :: app_state where
  "stoic_state =
     initial_state\<lparr>metadata := (metadata initial_state)
        \<lparr>topic := ''stoic philosophy for beginners'', author := ''J. Doe''\<rparr>\<rparr>"

definition editing_state :: app_state where
  "editing_state =
     stoic_state\<lparr>step := GENERATION,
                 generatedImages := [''data:image/png;base64,AAAA'', ''data:image/png;base64,BBBB'',
                                     ''data:image/png;base64,CCCC''],
                 coverImage := Some ''data:image/png;base64,AAAA'',
                 editPrompt := ''make the sky darker''\<rparr>"

lemmas fixtures = forbidden_def unreachable_def strings_en_def parse_metadata_examples_def
  parse_research_examples_def offline_env_def text_reply_def image_reply_def pipeline_env_def
  denied_env_def reply_env_def painter_env_def bare_surface_def bare_surface_env_def
  initial_state_def stoic_state_def
  editing_state_def empty_object_def video_env_def missing_key_def no_key_env_def Error_def
  hasKey_def

lemmas model = ensureApiKey_def researchTrends_def researchTrends_try_def sources_of_def
  js_or_def generateBookText_def
  generateSingleImage.simps generateCoverImages_def editCoverImage_def first_inline_image_def
  cleanBase64_of_def generate_try_def generate.simps generateVeoVideo_def
  startProcess_try_def startProcess_def handleEditImage_def or_else_def find_value_def
  permission_denied_def message_includes_def Let_def placeholder_def spread_def

section \<open>Shape of the logs\<close>

lemma ensureApiKey_shape:
  "\<exists>evs. ensureApiKey e force tr = tr @ Call_ensureApiKey force # evs \<and>
         (\<forall>x \<in> set evs. is_host_event x)"
  by (auto simp: ensureApiKey_def Let_def split: option.splits)

lemma host_no_request: "\<forall>x \<in> set evs. is_host_event x \<Longrightarrow> filter is_request evs = []"
  by (induction evs) (auto elim: is_host_event.elims)

lemma host_no_ensure:
  "\<forall>x \<in> set evs. is_host_event x \<Longrightarrow> count_list evs (Call_ensureApiKey b) = 0"
  by (induction evs) auto

lemma poll_no_request: "\<forall>x \<in> set evs. is_poll_event x \<Longrightarrow> filter is_request evs = []"
  by (induction evs) (auto elim: is_poll_event.elims)

lemma poll_no_ensure:
  "\<forall>x \<in> set evs. is_poll_event x \<Longrightarrow> count_list evs (Call_ensureApiKey b) = 0"
  by (induction evs) auto

lemma single_noretry_log:
  "snd (generateSingleImage e prompt False tr) =
     tr @ [GenerateContent ''gemini-3-pro-image-preview'' [prompt]]"
  by (simp add: generateSingleImage.simps Let_def split: sum.splits option.splits)

lemma single_noretry_fail:
  "ai_generateContent e (length tr) = Inl err \<Longrightarrow>
     fst (generateSingleImage e prompt False tr) = Inl err"
  by (simp add: generateSingleImage.simps Let_def)

lemma single_retry_unfold:
  "ai_generateContent e (length tr) = Inl err \<Longrightarrow> permission_denied err \<Longrightarrow>
   generateSingleImage e prompt True tr =
     generateSingleImage e prompt False
       (ensureApiKey e True
          (tr @ [GenerateContent ''gemini-3-pro-image-preview'' [prompt],
                 Console_log ''Permission denied, prompting for key selection again...'']))"
  by (subst generateSingleImage.simps) (simp add: Let_def)

lemma single_retry_counts:
  assumes "ai_generateContent e (length tr) = Inl err" "permission_denied err"
  shows "count_list (drop (length tr) (snd (generateSingleImage e prompt True tr)))
           (Call_ensureApiKey True) = 1 \<and>
         length (filter is_request
                   (drop (length tr) (snd (generateSingleImage e prompt True tr)))) = 2"
proof -
  let ?req = "GenerateContent ''gemini-3-pro-image-preview'' [prompt]"
  let ?log = "Console_log ''Permission denied, prompting for key selection again...''"
  obtain evs where
    evs: "ensureApiKey e True (tr @ [?req, ?log]) =
            (tr @ [?req, ?log]) @ Call_ensureApiKey True # evs"
    and host: "\<forall>x \<in> set evs. is_host_event x"
    using ensureApiKey_shape by blast
  have "snd (generateSingleImage e prompt True tr) =
          tr @ [?req, ?log] @ Call_ensureApiKey True # evs @ [?req]"
    using assms by (simp add: single_retry_unfold single_noretry_log evs)
  then show ?thesis
    by (simp add: host_no_ensure[OF host] host_no_request[OF host])
qed

text \<open>The polling loop only sleeps and polls; shown by the induction rule of the loop.\<close>

lemma poll_operation_log_aux:
  "poll_operation e operation tr = Some y \<Longrightarrow>
     \<exists>evs. snd y = tr @ evs \<and> (\<forall>x \<in> set evs. is_poll_event x)"
proof (induction rule: poll_operation.raw_induct[rotated 1, consumes 1, case_names step])
  case (step poll e operation tr y)
  show ?case
  proof (cases "op_done operation")
    case True
    with step(2) show ?thesis by auto
  next
    case False
    show ?thesis
    proof (cases "ai_getVideosOperation e (Suc (length tr))")
      case (Inl err)
      with False step(2) show ?thesis by auto
    next
      case (Inr op')
      with False step(2) have "poll e op' (tr @ [Sleep 5000, GetVideosOperation]) = Some y"
        by simp
      from step(1)[OF this] obtain evs where
        "snd y = (tr @ [Sleep 5000, GetVideosOperation]) @ evs"
        "\<forall>x \<in> set evs. is_poll_event x"
        by blast
      then show ?thesis
        by (intro exI[of _ "[Sleep 5000, GetVideosOperation] @ evs"]) auto
    qed
  qed
qed

lemma poll_operation_log:
  "poll_operation e operation tr = Some (r, tr') \<Longrightarrow>
     \<exists>evs. tr' = tr @ evs \<and> (\<forall>x \<in> set evs. is_poll_event x)"
  using poll_operation_log_aux by fastforce

lemma generate_try_log:
  assumes "generate_try e imageBase64 prompt tr = Some (r, tr')"
  shows "\<exists>args evs. tr' = tr @ GenerateVideos ''veo-3.1-fast-generate-preview'' args # evs \<and>
           (\<forall>x \<in> set evs. is_poll_event x)"
proof (cases "ai_generateVideos e (length tr)")
  case (Inl err)
  with assms show ?thesis by (auto simp: generate_try_def Let_def)
next
  case (Inr operation0)
  let ?tr1 = "tr @ [GenerateVideos ''veo-3.1-fast-generate-preview''
                      ((case cleanBase64_of imageBase64 of None \<Rightarrow> [] | Some b \<Rightarrow> [b]) @
                       [or_else (Some prompt)
                          ''Cinematic camera movement bringing this book cover to life.''])]"
  from assms Inr obtain p where p: "poll_operation e operation0 ?tr1 = Some p"
    by (auto simp: generate_try_def Let_def split: option.splits)
  obtain r2 tr2 where p2: "p = (r2, tr2)" by (cases p)
  from poll_operation_log[OF p[unfolded p2]] obtain evs where
    evs: "tr2 = ?tr1 @ evs" "\<forall>x \<in> set evs. is_poll_event x" by blast
  from assms Inr p p2 have "\<exists>evs'. tr' = tr2 @ evs' \<and> (\<forall>x \<in> set evs'. is_poll_event x)"
    by (auto simp: generate_try_def Let_def split: sum.splits if_splits)
  then obtain evs' where "tr' = tr2 @ evs'" "\<forall>x \<in> set evs'. is_poll_event x" by blast
  with evs show ?thesis by auto
qed

lemma generate_noretry:
  "generate e imageBase64 prompt False tr = generate_try e imageBase64 prompt tr"
  by (subst generate.simps) (auto split: option.splits sum.splits prod.splits)

lemma generate_retry_unfold:
  "generate_try e imageBase64 prompt tr = Some (Inl err, tr1) \<Longrightarrow> permission_denied err \<Longrightarrow>
   generate e imageBase64 prompt True tr =
     generate_try e imageBase64 prompt
       (ensureApiKey e True
          (tr1 @ [Console_log
                    ''Permission denied for Veo, prompting for key selection again...'']))"
  by (subst generate.simps) (simp add: generate_noretry)

lemma veo_retry:
  assumes "generate_try e imageBase64 prompt (ensureApiKey e False tr) = Some (Inl err, tr1)"
    and "permission_denied err"
  shows "generateVeoVideo e imageBase64 prompt tr =
           (case generate_try e imageBase64 prompt
                   (ensureApiKey e True
                      (tr1 @ [Console_log
                        ''Permission denied for Veo, prompting for key selection again...''])) of
              None \<Rightarrow> None
            | Some (r2, tr2) \<Rightarrow>
                Some (r2, tr2 @ (if isl r2 then [Console_error ''Veo generation failed''] else [])))"
  using assms
  by (auto simp: generateVeoVideo_def generate_retry_unfold split: option.splits sum.splits)

lemma veo_retry_counts:
  assumes first: "generate_try e imageBase64 prompt (ensureApiKey e False tr) = Some (Inl err, tr1)"
    and denied: "permission_denied err"
    and res: "generateVeoVideo e imageBase64 prompt tr = Some (r, tr')"
  shows "count_list (drop (length tr) tr') (Call_ensureApiKey True) = 1 \<and>
         length (filter is_request (drop (length tr) tr')) = 2"
proof -
  let ?log = "Console_log ''Permission denied for Veo, prompting for key selection again...''"
  let ?m = "''veo-3.1-fast-generate-preview''"
  obtain h0 where h0: "ensureApiKey e False tr = tr @ Call_ensureApiKey False # h0"
    "\<forall>x \<in> set h0. is_host_event x" using ensureApiKey_shape by blast
  obtain a1 p1 where p1: "tr1 = ensureApiKey e False tr @ GenerateVideos ?m a1 # p1"
    "\<forall>x \<in> set p1. is_poll_event x" using generate_try_log[OF first] by blast
  obtain h1 where
    h1: "ensureApiKey e True (tr1 @ [?log]) = (tr1 @ [?log]) @ Call_ensureApiKey True # h1"
    "\<forall>x \<in> set h1. is_host_event x" using ensureApiKey_shape by blast
  from veo_retry[OF first denied] res
  obtain r2 tr2 where
    second: "generate_try e imageBase64 prompt (ensureApiKey e True (tr1 @ [?log])) = Some (r2, tr2)"
    and tail: "tr' = tr2 @ (if isl r2 then [Console_error ''Veo generation failed''] else [])"
    by (auto split: option.splits)
  obtain a2 p2 where p2: "tr2 = ensureApiKey e True (tr1 @ [?log]) @ GenerateVideos ?m a2 # p2"
    "\<forall>x \<in> set p2. is_poll_event x" using generate_try_log[OF second] by blast
  have tr2: "tr2 = tr @ (Call_ensureApiKey False # h0 @ GenerateVideos ?m a1 # p1 @ ?log #
                 Call_ensureApiKey True # h1 @ GenerateVideos ?m a2 # p2)"
  proof -
    have "tr2 = (tr1 @ [?log]) @ Call_ensureApiKey True # h1 @ GenerateVideos ?m a2 # p2"
      by (simp only: p2(1) h1(1)) simp
    also have "tr1 = (tr @ Call_ensureApiKey False # h0) @ GenerateVideos ?m a1 # p1"
      by (simp only: p1(1) h0(1))
    finally show ?thesis by simp
  qed
  show ?thesis
    by (simp add: tail tr2 host_no_request host_no_ensure poll_no_request poll_no_ensure
          h0(2) h1(2) p1(2) p2(2))
qed

section \<open>The key-authorization guard\<close>

text \<open>
  C7, as stated: without a host surface \<^verbatim>\<open>ensureApiKey\<close> opens no key selection; with a
  surface, key selection is opened exactly when \<open>force\<close> holds or no key is selected. The
  second half fails on a surface that has no \<^verbatim>\<open>openSelectKey\<close>: the host object is present,
  \<open>force\<close> is true, and nothing is opened, because line 16 tests the member before calling it.
\<close>

theorem ensureApiKey_bare_surface_counterexample:
  "aistudio bare_surface_env = Some bare_surface \<and>
   \<not> (OpenSelectKey \<in> set (drop (length []) (ensureApiKey bare_surface_env True [])) \<longleftrightarrow>
        (True \<or> \<not> hasKey bare_surface (Suc (length []))))"
  by (simp add: fixtures ensureApiKey_def)

text \<open>
  C7, amended: without a host surface \<^verbatim>\<open>ensureApiKey\<close> completes having touched nothing (the
  log gains only the record of the call); with a surface, key selection is opened exactly when
  the surface provides \<^verbatim>\<open>openSelectKey\<close> and \<open>force\<close> holds or no key is selected, a
  surface without \<^verbatim>\<open>hasSelectedApiKey\<close> counting as no key selected.
\<close>

theorem ensureApiKey_opens_key_selection:
  "(aistudio e = None \<longrightarrow> ensureApiKey e force tr = tr @ [Call_ensureApiKey force]) \<and>
   (\<forall>h. aistudio e = Some h \<longrightarrow>
      (OpenSelectKey \<in> set (drop (length tr) (ensureApiKey e force tr)) \<longleftrightarrow>
         openSelectKey h \<and> (force \<or> \<not> hasKey h (Suc (length tr)))))"
  by (auto simp: ensureApiKey_def hasKey_def Let_def split: option.splits)

theorem ensureApiKey_opens_key_selection_witness:
  "aistudio offline_env = None \<and>
   ensureApiKey offline_env True [] = [Call_ensureApiKey True] \<and>
   aistudio denied_env = Some \<lparr>hasSelectedApiKey = Some (\<lambda>_. True), openSelectKey = True\<rparr> \<and>
   ensureApiKey denied_env False [] = [Call_ensureApiKey False, HasSelectedApiKey] \<and>
   ensureApiKey denied_env True [] = [Call_ensureApiKey True, HasSelectedApiKey, OpenSelectKey] \<and>
   aistudio bare_surface_env = Some bare_surface \<and>
   ensureApiKey bare_surface_env True [] = [Call_ensureApiKey True]"
  using ensureApiKey_opens_key_selection [of offline_env True "[]"]
    ensureApiKey_opens_key_selection [of denied_env False "[]"]
    ensureApiKey_opens_key_selection [of denied_env True "[]"]
    ensureApiKey_opens_key_selection [of bare_surface_env True "[]"]
  by (simp add: fixtures ensureApiKey_def)

section \<open>Retry after a permission failure\<close>

text \<open>
  C2: when the remote call of \<^verbatim>\<open>generateSingleImage(prompt, true)\<close> is rejected with an error
  that the catch block classifies as a permission failure, the call does the request, then
  \<^verbatim>\<open>ensureApiKey(true)\<close>, then the same request once more, and nothing else: the forced
  re-authorization is entered once and two requests are sent; an error of the second request,
  of whatever kind, is the result of the call. The same holds for \<^verbatim>\<open>generateVeoVideo\<close>, whose
  first attempt may fail at the request, while polling, or at the download: whenever the call
  returns, it has entered the forced re-authorization once and sent two video requests, and its
  result is the result of the second attempt (which it never returns where the second attempt
  polls for ever). The three image requests of \<^verbatim>\<open>generateCoverImages\<close> each follow this
  protocol on their own.
\<close>

theorem permission_denied_retries_once:
  "(ai_generateContent e (length tr) = Inl err \<and> permission_denied err \<longrightarrow>
      snd (generateSingleImage e prompt True tr) =
        ensureApiKey e True
          (tr @ [GenerateContent ''gemini-3-pro-image-preview'' [prompt],
                 Console_log ''Permission denied, prompting for key selection again...'']) @
        [GenerateContent ''gemini-3-pro-image-preview'' [prompt]] \<and>
      count_list (drop (length tr) (snd (generateSingleImage e prompt True tr)))
        (Call_ensureApiKey True) = 1 \<and>
      length (filter is_request
                (drop (length tr) (snd (generateSingleImage e prompt True tr)))) = 2 \<and>
      (\<forall>err2.
          ai_generateContent e
            (length (ensureApiKey e True
               (tr @ [GenerateContent ''gemini-3-pro-image-preview'' [prompt],
                      Console_log ''Permission denied, prompting for key selection again...''])))
            = Inl err2 \<longrightarrow>
          fst (generateSingleImage e prompt True tr) = Inl err2)) \<and>
   (generate_try e' imageBase64 vprompt (ensureApiKey e' False tr') = Some (Inl verr, tr1) \<and>
    permission_denied verr \<longrightarrow>
      (\<forall>r trf. generateVeoVideo e' imageBase64 vprompt tr' = Some (r, trf) \<longrightarrow>
          count_list (drop (length tr') trf) (Call_ensureApiKey True) = 1 \<and>
          length (filter is_request (drop (length tr') trf)) = 2) \<and>
      generateVeoVideo e' imageBase64 vprompt tr' =
        (case generate_try e' imageBase64 vprompt
                (ensureApiKey e' True
                   (tr1 @ [Console_log
                     ''Permission denied for Veo, prompting for key selection again...''])) of
           None \<Rightarrow> None
         | Some (r2, tr2) \<Rightarrow>
             Some (r2, tr2 @ (if isl r2 then [Console_error ''Veo generation failed''] else []))))"
proof (intro conjI impI allI)
  assume a: "ai_generateContent e (length tr) = Inl err \<and> permission_denied err"
  let ?tr2 = "ensureApiKey e True
          (tr @ [GenerateContent ''gemini-3-pro-image-preview'' [prompt],
                 Console_log ''Permission denied, prompting for key selection again...''])"
  from a have u: "generateSingleImage e prompt True tr = generateSingleImage e prompt False ?tr2"
    by (simp add: single_retry_unfold)
  show "snd (generateSingleImage e prompt True tr) =
          ?tr2 @ [GenerateContent ''gemini-3-pro-image-preview'' [prompt]]"
    by (simp only: u single_noretry_log)
  show "count_list (drop (length tr) (snd (generateSingleImage e prompt True tr)))
          (Call_ensureApiKey True) = 1"
    using a single_retry_counts by blast
  show "length (filter is_request
                  (drop (length tr) (snd (generateSingleImage e prompt True tr)))) = 2"
    using a single_retry_counts by blast
  fix err2
  assume "ai_generateContent e (length ?tr2) = Inl err2"
  then show "fst (generateSingleImage e prompt True tr) = Inl err2"
    by (simp only: u single_noretry_fail)
next
  fix r trf
  assume "generate_try e' imageBase64 vprompt (ensureApiKey e' False tr') = Some (Inl verr, tr1) \<and>
          permission_denied verr"
    and "generateVeoVideo e' imageBase64 vprompt tr' = Some (r, trf)"
  then show "count_list (drop (length tr') trf) (Call_ensureApiKey True) = 1"
    and "length (filter is_request (drop (length tr') trf)) = 2"
    using veo_retry_counts by blast+
next
  assume "generate_try e' imageBase64 vprompt (ensureApiKey e' False tr') = Some (Inl verr, tr1) \<and>
          permission_denied verr"
  then show "generateVeoVideo e' imageBase64 vprompt tr' =
        (case generate_try e' imageBase64 vprompt
                (ensureApiKey e' True
                   (tr1 @ [Console_log
                     ''Permission denied for Veo, prompting for key selection again...''])) of
           None \<Rightarrow> None
         | Some (r2, tr2) \<Rightarrow>
             Some (r2, tr2 @ (if isl r2 then [Console_error ''Veo generation failed''] else [])))"
    using veo_retry by blast
qed

theorem permission_denied_retries_once_witness:
  "ai_generateContent denied_env (length []) = Inl forbidden \<and>
   permission_denied forbidden \<and>
   generateSingleImage denied_env ''cover'' True [] =
     (Inl forbidden,
      [GenerateContent ''gemini-3-pro-image-preview'' [''cover''],
       Console_log ''Permission denied, prompting for key selection again...'',
       Call_ensureApiKey True, HasSelectedApiKey, OpenSelectKey,
       GenerateContent ''gemini-3-pro-image-preview'' [''cover'']]) \<and>
   generate_try video_env ''data:image/png;base64,AAAA'' [] (ensureApiKey video_env False []) =
     Some (Inl (Error ''PERMISSION_DENIED''),
           [Call_ensureApiKey False, HasSelectedApiKey,
            GenerateVideos ''veo-3.1-fast-generate-preview''
              [''AAAA'', ''Cinematic camera movement bringing this book cover to life.''],
            Sleep 5000, GetVideosOperation, Fetch ''https://v/1?alt=media&key=key'']) \<and>
   permission_denied (Error ''PERMISSION_DENIED'') \<and>
   generateVeoVideo video_env ''data:image/png;base64,AAAA'' [] [] =
     Some (Inr ''blob:cover-video'',
           [Call_ensureApiKey False, HasSelectedApiKey,
            GenerateVideos ''veo-3.1-fast-generate-preview''
              [''AAAA'', ''Cinematic camera movement bringing this book cover to life.''],
            Sleep 5000, GetVideosOperation, Fetch ''https://v/1?alt=media&key=key'',
            Console_log ''Permission denied for Veo, prompting for key selection again...'',
            Call_ensureApiKey True, HasSelectedApiKey, OpenSelectKey,
            GenerateVideos ''veo-3.1-fast-generate-preview''
              [''AAAA'', ''Cinematic camera movement bringing this book cover to life.''],
            Fetch ''https://v/2?alt=media&key=key'', Blob]) \<and>
   generateVeoVideo denied_env ''data:image/png;base64,AAAA'' [] [] =
     Some (Inl forbidden,
           [Call_ensureApiKey False, HasSelectedApiKey,
            GenerateVideos ''veo-3.1-fast-generate-preview''
              [''AAAA'', ''Cinematic camera movement bringing this book cover to life.''],
            Console_log ''Permission denied for Veo, prompting for key selection again...'',
            Call_ensureApiKey True, HasSelectedApiKey, OpenSelectKey,
            GenerateVideos ''veo-3.1-fast-generate-preview''
              [''AAAA'', ''Cinematic camera movement bringing this book cover to life.''],
            Console_error ''Veo generation failed''])"
  using permission_denied_retries_once
    [of denied_env "[]" forbidden "''cover''" video_env "''data:image/png;base64,AAAA''" "[]" "[]"
        "Error ''PERMISSION_DENIED''"
        "[Call_ensureApiKey False, HasSelectedApiKey,
          GenerateVideos ''veo-3.1-fast-generate-preview''
            [''AAAA'', ''Cinematic camera movement bringing this book cover to life.''],
          Sleep 5000, GetVideosOperation, Fetch ''https://v/1?alt=media&key=key'']"]
    permission_denied_retries_once
    [of denied_env "[]" forbidden "''cover''" denied_env "''data:image/png;base64,AAAA''" "[]" "[]"
        forbidden
        "[Call_ensureApiKey False, HasSelectedApiKey,
          GenerateVideos ''veo-3.1-fast-generate-preview''
            [''AAAA'', ''Cinematic camera movement bringing this book cover to life.'']]"]
  by (simp add: fixtures model poll_operation.simps)

section \<open>The remote API adapter\<close>

lemma js_or_truthy: "truthy b \<Longrightarrow> truthy (js_or a b)"
  by (auto simp: js_or_def split: option.splits)

lemma js_or_text:
  "(case a of None \<Rightarrow> True | Some v \<Rightarrow> is_text v) \<Longrightarrow> is_text b \<Longrightarrow> is_text (js_or a b)"
  by (auto simp: js_or_def split: option.splits)

lemma js_or_reference_list:
  "(case a of None \<Rightarrow> True | Some v \<Rightarrow> is_reference_list v) \<Longrightarrow> is_reference_list b \<Longrightarrow>
     is_reference_list (js_or a b)"
  by (auto simp: js_or_def split: option.splits)

lemma map_filter_links:
  "list_all (\<lambda>chunk. case web chunk of
                       None \<Rightarrow> True
                     | Some w \<Rightarrow> web_uri w \<noteq> None \<and> web_title w \<noteq> None) chunks \<Longrightarrow>
   list_all (\<lambda>l. uri l \<noteq> None \<and> src_title l \<noteq> None)
     (List.map_filter
        (\<lambda>chunk. case web chunk of
                   None \<Rightarrow> None
                 | Some w \<Rightarrow> Some \<lparr>uri = web_uri w, src_title = web_title w\<rparr>)
        chunks)"
  by (induction chunks) (auto simp: List.map_filter_simps split: option.splits)

lemma sources_of_links:
  assumes "well_typed_reply kvs response"
  shows "list_all (\<lambda>l. uri l \<noteq> None \<and> src_title l \<noteq> None) (sources_of response)"
proof (cases "groundingChunks response")
  case None
  then show ?thesis by (simp add: sources_of_def)
next
  case (Some chunks)
  from assms have
    "list_all (\<lambda>chunk. case web chunk of
                         None \<Rightarrow> True
                       | Some w \<Rightarrow> web_uri w \<noteq> None \<and> web_title w \<noteq> None) chunks"
    unfolding well_typed_reply_def Some option.case by blast
  then show ?thesis
    unfolding sources_of_def Some option.case by (rule map_filter_links)
qed

lemma catch_value_well_formed:
  "well_formed
     \<lparr>trends = JString ''Unable to fetch live trends. Using general design principles.'',
      references = JArray [], sources = []\<rparr>"
  by (simp add: well_formed_def is_text_def is_reference_list_def)

lemma researchTrends_try_truthy:
  "researchTrends_try e outcome = Inr g \<Longrightarrow> truthy (trends g) \<and> truthy (references g)"
  by (auto simp: researchTrends_try_def Let_def js_or_truthy split: sum.splits option.splits)

lemma researchTrends_try_well_typed:
  \<open>JSON_parse_research e (or_else (resp_text response) ''{"trends": "", "references": []}'')
     = Some (JObject kvs) \<Longrightarrow>
   well_typed_reply kvs response \<Longrightarrow>
   \<exists>g. researchTrends_try e (Inr response) = Inr g \<and> well_formed g\<close>
proof -
  assume parsed:
    \<open>JSON_parse_research e (or_else (resp_text response) ''{"trends": "", "references": []}'')
       = Some (JObject kvs)\<close>
    and typed: "well_typed_reply kvs response"
  let ?g = "\<lparr>trends = js_or (map_of kvs ''trends'') (JString ''Analysis complete.''),
             references = js_or (map_of kvs ''references'') (JArray []),
             sources = sources_of response\<rparr>"
  have eq: "researchTrends_try e (Inr response) = Inr ?g"
    using parsed by (simp add: researchTrends_try_def Let_def)
  from typed have
    w1: "case map_of kvs ''trends'' of None \<Rightarrow> True | Some v \<Rightarrow> is_text v" and
    w2: "case map_of kvs ''references'' of None \<Rightarrow> True | Some v \<Rightarrow> is_reference_list v"
    unfolding well_typed_reply_def by blast+
  have t: "is_text (js_or (map_of kvs ''trends'') (JString ''Analysis complete.''))"
    by (rule js_or_text[OF w1]) (simp add: is_text_def)
  have r: "is_reference_list (js_or (map_of kvs ''references'') (JArray []))"
    by (rule js_or_reference_list[OF w2]) (simp add: is_reference_list_def)
  have "well_formed ?g"
    using t r sources_of_links[OF typed] by (simp add: well_formed_def)
  with eq show ?thesis by blast
qed

lemma researchTrends_try_rejects:
  \<open>researchTrends_try e (Inl err) = Inl err\<close>
  \<open>JSON_parse_research e (or_else (resp_text response) ''{"trends": "", "references": []}'')
     = None \<Longrightarrow> researchTrends_try e (Inr response) = Inl SyntaxError\<close>
  \<open>JSON_parse_research e (or_else (resp_text response) ''{"trends": "", "references": []}'')
     = Some JNull \<Longrightarrow>
   researchTrends_try e (Inr response) = Inl (Error ''Cannot read properties of null'')\<close>
  by (simp_all add: researchTrends_try_def Let_def)

lemma researchTrends_built:
  "new_GoogleGenAI e (length tr) = None \<Longrightarrow>
   fst (researchTrends e category' topic' targetMarket' marketplaceId lang tr) =
     (case researchTrends_try e (ai_generateContent e (length tr)) of
        Inr result \<Rightarrow> Inr result
      | Inl error \<Rightarrow>
          Inr \<lparr>trends = JString ''Unable to fetch live trends. Using general design principles.'',
               references = JArray [], sources = []\<rparr>)"
  by (simp add: researchTrends_def Let_def split: sum.splits)

text \<open>
  C4, as stated: whatever its arguments and whatever the remote call does, \<^verbatim>\<open>researchTrends\<close>
  returns a well-formed \<^verbatim>\<open>GroundingData\<close> and never lets a failure reach its caller. It
  fails in two ways. Where the constructor of the client throws (no API key), the call of
  \<^verbatim>\<open>getAI()\<close> at line 24 stands before the \<^verbatim>\<open>try\<close> of line 33 and the error leaves the
  function, with no request sent. Where the remote reply is
  \<^verbatim>\<open>{"trends": 42, "references": "abc"}\<close>, lines 85 and 86 pass the number and the string
  on, and the value returned is not a \<^verbatim>\<open>GroundingData\<close>.
\<close>

theorem researchTrends_counterexample:
  \<open>new_GoogleGenAI no_key_env (length []) = Some missing_key \<and>
   researchTrends no_key_env ''Self-Help'' ''stoic philosophy for beginners'' [] ''it'' ''it'' []
     = (Inl missing_key, []) \<and>
   new_GoogleGenAI (reply_env (Some ''{"trends": 42, "references": "abc"}'')) (length []) = None \<and>
   ai_generateContent (reply_env (Some ''{"trends": 42, "references": "abc"}'')) (length [])
     = Inr (text_reply (Some ''{"trends": 42, "references": "abc"}'')) \<and>
   fst (researchTrends (reply_env (Some ''{"trends": 42, "references": "abc"}'')) ''Self-Help''
          ''stoic philosophy for beginners'' [] ''it'' ''it'' [])
     = Inr \<lparr>trends = JNumber ''42'', references = JString ''abc'', sources = []\<rparr> \<and>
   \<not> well_formed \<lparr>trends = JNumber ''42'', references = JString ''abc'', sources = []\<rparr>\<close>
  by (simp add: fixtures model well_formed_def is_text_def)

text \<open>
  C4, amended: once the client handle is built (\<^verbatim>\<open>getAI()\<close> returns), whatever its
  arguments and whatever the remote call does, \<^verbatim>\<open>researchTrends\<close> never lets a failure
  reach its caller: it returns an object whose \<^verbatim>\<open>trends\<close> and \<^verbatim>\<open>references\<close> are truthy.
  In the failure case (the remote call is rejected, its text is rejected by \<^verbatim>\<open>JSON.parse\<close>,
  or it parses to \<^verbatim>\<open>null\<close>) the result is the well-formed value of the catch block: the
  generic trend text, no references, no sources. Otherwise the result is well-formed
  whenever the reply is: the code passes the parsed trends and references on as they are.
\<close>

theorem researchTrends_degrades_on_failure:
  assumes built: "new_GoogleGenAI e (length tr) = None"
  shows
    \<open>\<exists>g. fst (researchTrends e category' topic' targetMarket' marketplaceId lang tr) = Inr g \<and>
       truthy (trends g) \<and> truthy (references g) \<and>
       ((\<exists>err. ai_generateContent e (length tr) = Inl err) \<longrightarrow>
          g = \<lparr>trends = JString ''Unable to fetch live trends. Using general design principles.'',
               references = JArray [], sources = []\<rparr> \<and>
          well_formed g) \<and>
       ((\<exists>response. ai_generateContent e (length tr) = Inr response \<and>
            (JSON_parse_research e
               (or_else (resp_text response) ''{"trends": "", "references": []}'') = None \<or>
             JSON_parse_research e
               (or_else (resp_text response) ''{"trends": "", "references": []}'') = Some JNull))
          \<longrightarrow>
          g = \<lparr>trends = JString ''Unable to fetch live trends. Using general design principles.'',
               references = JArray [], sources = []\<rparr> \<and>
          well_formed g) \<and>
       (\<forall>response kvs.
           ai_generateContent e (length tr) = Inr response \<and>
           JSON_parse_research e
             (or_else (resp_text response) ''{"trends": "", "references": []}'')
             = Some (JObject kvs) \<and>
           well_typed_reply kvs response \<longrightarrow>
           well_formed g)\<close>
proof (cases "researchTrends_try e (ai_generateContent e (length tr))")
  case (Inl err)
  let ?d = "\<lparr>trends = JString ''Unable to fetch live trends. Using general design principles.'',
             references = JArray [], sources = []\<rparr>"
  have res: "fst (researchTrends e category' topic' targetMarket' marketplaceId lang tr) = Inr ?d"
    using built Inl by (simp add: researchTrends_built)
  show ?thesis
    by (rule exI[of _ ?d]) (simp add: res catch_value_well_formed)
next
  case (Inr g)
  have res: "fst (researchTrends e category' topic' targetMarket' marketplaceId lang tr) = Inr g"
    using built Inr by (simp add: researchTrends_built)
  have t: "truthy (trends g) \<and> truthy (references g)"
    using Inr by (rule researchTrends_try_truthy)
  have no_reject: "\<And>err. ai_generateContent e (length tr) \<noteq> Inl err"
    using Inr researchTrends_try_rejects(1)[of e] by (metis sum.distinct(1))
  have no_parse_failure:
    \<open>\<And>response. ai_generateContent e (length tr) = Inr response \<Longrightarrow>
       JSON_parse_research e (or_else (resp_text response) ''{"trends": "", "references": []}'')
         \<noteq> None \<and>
       JSON_parse_research e (or_else (resp_text response) ''{"trends": "", "references": []}'')
         \<noteq> Some JNull\<close>
    using Inr researchTrends_try_rejects(2,3)[of e] by (metis sum.distinct(1))
  have typed:
    \<open>\<And>response kvs. ai_generateContent e (length tr) = Inr response \<Longrightarrow>
       JSON_parse_research e (or_else (resp_text response) ''{"trends": "", "references": []}'')
         = Some (JObject kvs) \<Longrightarrow>
       well_typed_reply kvs response \<Longrightarrow> well_formed g\<close>
    using Inr researchTrends_try_well_typed[of e] by (metis sum.inject(2))
  show ?thesis
    by (rule exI[of _ g]) (use res t no_reject no_parse_failure typed in blast)
qed

theorem researchTrends_degrades_on_failure_witness:
  \<open>new_GoogleGenAI offline_env (length []) = None \<and>
   ai_generateContent offline_env (length []) = Inl unreachable \<and>
   fst (researchTrends offline_env ''Self-Help'' ''stoic philosophy for beginners'' [] ''it'' ''it'' [])
     = Inr \<lparr>trends = JString ''Unable to fetch live trends. Using general design principles.'',
            references = JArray [], sources = []\<rparr> \<and>
   ai_generateContent (reply_env (Some ''Sorry, I cannot help with that.'')) (length []) =
     Inr (text_reply (Some ''Sorry, I cannot help with that.'')) \<and>
   fst (researchTrends (reply_env (Some ''Sorry, I cannot help with that.'')) ''Self-Help''
          ''stoic philosophy for beginners'' [] ''it'' ''it'' [])
     = Inr \<lparr>trends = JString ''Unable to fetch live trends. Using general design principles.'',
            references = JArray [], sources = []\<rparr> \<and>
   fst (researchTrends (reply_env (Some ''null'')) ''Self-Help''
          ''stoic philosophy for beginners'' [] ''it'' ''it'' [])
     = Inr \<lparr>trends = JString ''Unable to fetch live trends. Using general design principles.'',
            references = JArray [], sources = []\<rparr> \<and>
   well_typed_reply [(''trends'', JString ''Bold serif titles on dark backgrounds.'')]
     (text_reply (Some ''{"trends":"Bold serif titles on dark backgrounds."}'')) \<and>
   fst (researchTrends (reply_env (Some ''{"trends":"Bold serif titles on dark backgrounds."}''))
          ''Self-Help'' ''stoic philosophy for beginners'' [] ''it'' ''it'' [])
     = Inr \<lparr>trends = JString ''Bold serif titles on dark backgrounds.'',
            references = JArray [], sources = []\<rparr> \<and>
   well_formed \<lparr>trends = JString ''Bold serif titles on dark backgrounds.'',
                references = JArray [], sources = []\<rparr>\<close>
  using researchTrends_degrades_on_failure
          [of offline_env "[]" "''Self-Help''" "''stoic philosophy for beginners''" "[]" "''it''" "''it''"]
        researchTrends_degrades_on_failure
          [of "reply_env (Some ''Sorry, I cannot help with that.'')" "[]" "''Self-Help''"
              "''stoic philosophy for beginners''" "[]" "''it''" "''it''"]
        researchTrends_degrades_on_failure
          [of "reply_env (Some ''null'')" "[]" "''Self-Help''"
              "''stoic philosophy for beginners''" "[]" "''it''" "''it''"]
        researchTrends_degrades_on_failure
          [of \<open>reply_env (Some ''{"trends":"Bold serif titles on dark backgrounds."}'')\<close> "[]"
              "''Self-Help''" "''stoic philosophy for beginners''" "[]" "''it''" "''it''"]
  by (simp add: fixtures model well_typed_reply_def well_formed_def is_text_def
        is_reference_list_def)

text \<open>
  C5, as stated: whenever the text of the remote answer cannot be parsed as JSON,
  \<^verbatim>\<open>generateBookText\<close> returns the placeholder. It fails for the empty text: the empty text
  is not JSON, but line 128 replaces it by \<^verbatim>\<open>{}\<close> before parsing, and the result is the
  empty object.
\<close>

theorem generateBookText_unparsable_counterexample:
  "ai_generateContent (reply_env (Some [])) (length []) = Inr (text_reply (Some [])) \<and>
   resp_text (text_reply (Some [])) = Some [] \<and>
   JSON_parse_metadata (reply_env (Some [])) [] = None \<and>
   fst (generateBookText (reply_env (Some [])) ''stoic philosophy for beginners'' ''Self-Help''
          ''J. Doe'' ''en'' []) = Inr empty_object \<and>
   empty_object \<noteq> placeholder"
  by (simp add: fixtures model)

text \<open>
  C5, amended: where the remote call answers with a text that is present, not empty, and
  rejected by \<^verbatim>\<open>JSON.parse\<close>, \<^verbatim>\<open>generateBookText\<close> returns the placeholder with title
  \<^verbatim>\<open>Untitled\<close>, an empty subtitle and an empty description, and does not fail.
\<close>

theorem generateBookText_unparsable:
  assumes "ai_generateContent e (length tr) = Inr response"
    and "resp_text response = Some content"
    and "content \<noteq> []"
    and "JSON_parse_metadata e content = None"
  shows "fst (generateBookText e topic' category' author' lang tr) = Inr placeholder \<and>
         p_title placeholder = Some ''Untitled'' \<and> p_subtitle placeholder = Some [] \<and>
         p_description placeholder = Some [] \<and>
         p_amazonMarketplace placeholder = None \<and> p_category placeholder = None \<and>
         p_targetMarket placeholder = None \<and> p_topic placeholder = None \<and>
         p_author placeholder = None"
  using assms by (simp add: generateBookText_def Let_def or_else_def placeholder_def)

theorem generateBookText_unparsable_witness:
  "ai_generateContent (reply_env (Some ''Sorry, I cannot help with that.'')) (length []) =
     Inr (text_reply (Some ''Sorry, I cannot help with that.'')) \<and>
   resp_text (text_reply (Some ''Sorry, I cannot help with that.'')) =
     Some ''Sorry, I cannot help with that.'' \<and>
   JSON_parse_metadata (reply_env (Some ''Sorry, I cannot help with that.''))
     ''Sorry, I cannot help with that.'' = None \<and>
   generateBookText (reply_env (Some ''Sorry, I cannot help with that.''))
     ''stoic philosophy for beginners'' ''Self-Help'' ''J. Doe'' ''en'' [] =
     (Inr placeholder,
      [GenerateContent ''gemini-3-flash-preview''
         [''Self-Help'', ''stoic philosophy for beginners'', ''J. Doe'', ''English'']])"
  using generateBookText_unparsable
          [of "reply_env (Some ''Sorry, I cannot help with that.'')" "[]"
              "text_reply (Some ''Sorry, I cannot help with that.'')"
              "''Sorry, I cannot help with that.''"
              "''stoic philosophy for beginners''" "''Self-Help''" "''J. Doe''" "''en''"]
  by (simp add: fixtures model)

text \<open>
  C10: \<^verbatim>\<open>JSON.parse("{}")\<close> is the empty object. Where the remote call answers with no
  text, or with the empty text, \<^verbatim>\<open>generateBookText\<close> parses \<^verbatim>\<open>{}\<close> and returns the empty
  object, which has no title, subtitle or description and is not the placeholder. A result
  equal to the placeholder arises only from a text that is present and not empty: one that
  \<^verbatim>\<open>JSON.parse\<close> rejects, or one that spells out the placeholder's three values itself.
\<close>

theorem generateBookText_empty_text:
  assumes "ai_generateContent e (length tr) = Inr response"
    and "JSON_parse_metadata e ''{}'' = Some empty_object"
  shows "(resp_text response = None \<or> resp_text response = Some [] \<longrightarrow>
            fst (generateBookText e topic' category' author' lang tr) = Inr empty_object \<and>
            p_title empty_object = None \<and> p_subtitle empty_object = None \<and>
            p_description empty_object = None \<and> empty_object \<noteq> placeholder) \<and>
         (fst (generateBookText e topic' category' author' lang tr) = Inr placeholder \<longrightarrow>
            (\<exists>content. resp_text response = Some content \<and> content \<noteq> [] \<and>
                (JSON_parse_metadata e content = None \<or>
                 JSON_parse_metadata e content = Some placeholder)))"
  using assms
  by (auto simp: generateBookText_def Let_def or_else_def placeholder_def empty_object_def
      split: option.splits if_splits)

theorem generateBookText_empty_text_witness:
  "ai_generateContent (reply_env None) (length []) = Inr (text_reply None) \<and>
   JSON_parse_metadata (reply_env None) ''{}'' = Some empty_object \<and>
   resp_text (text_reply None) = None \<and>
   fst (generateBookText (reply_env None) ''stoic philosophy for beginners'' ''Self-Help''
          ''J. Doe'' ''en'' []) = Inr empty_object \<and>
   ai_generateContent (reply_env (Some [])) (length []) = Inr (text_reply (Some [])) \<and>
   resp_text (text_reply (Some [])) = Some [] \<and>
   fst (generateBookText (reply_env (Some [])) ''stoic philosophy for beginners'' ''Self-Help''
          ''J. Doe'' ''en'' []) = Inr empty_object"
  using generateBookText_empty_text
          [of "reply_env None" "[]" "text_reply None"
              "''stoic philosophy for beginners''" "''Self-Help''" "''J. Doe''" "''en''"]
        generateBookText_empty_text
          [of "reply_env (Some [])" "[]" "text_reply (Some [])"
              "''stoic philosophy for beginners''" "''Self-Help''" "''J. Doe''" "''en''"]
  by (simp add: fixtures model)

text \<open>
  C8: \<^verbatim>\<open>editCoverImage\<close> sends one request and touches nothing else: its log is the request,
  followed by the console line of the catch block when the call fails. It never enters
  \<^verbatim>\<open>ensureApiKey\<close> and never sends a second request. An error of the remote call is the
  result of the call as it is, a permission failure included.
\<close>

theorem editCoverImage_no_retry:
  "snd (editCoverImage e imageBase64 instruction tr) =
     tr @ GenerateContent ''gemini-2.5-flash-image''
            ((case cleanBase64_of imageBase64 of None \<Rightarrow> [] | Some b \<Rightarrow> [b]) @ [instruction]) #
          (if isl (fst (editCoverImage e imageBase64 instruction tr))
           then [Console_error ''Image editing failed''] else []) \<and>
   (\<forall>err. ai_generateContent e (length tr) = Inl err \<longrightarrow>
          fst (editCoverImage e imageBase64 instruction tr) = Inl err)"
  by (auto simp: editCoverImage_def Let_def split: sum.splits option.splits)

theorem editCoverImage_no_retry_witness:
  "ai_generateContent denied_env (length []) = Inl forbidden \<and>
   permission_denied forbidden \<and>
   editCoverImage denied_env ''data:image/png;base64,AAAA'' ''make the sky darker'' [] =
     (Inl forbidden,
      [GenerateContent ''gemini-2.5-flash-image'' [''AAAA'', ''make the sky darker''],
       Console_error ''Image editing failed''])"
  using editCoverImage_no_retry
          [of denied_env "''data:image/png;base64,AAAA''" "''make the sky darker''" "[]"]
  by (simp add: fixtures model)

section \<open>The generation orchestrator\<close>

lemma map_io_length: "length (fst (map_io f xs tr)) = length xs"
proof (induction xs arbitrary: tr)
  case Nil
  then show ?case by simp
next
  case (Cons x xs)
  obtain y tr1 where f: "f x tr = (y, tr1)" by (cases "f x tr")
  obtain ys tr2 where m: "map_io f xs tr1 = (ys, tr2)" by (cases "map_io f xs tr1")
  from Cons[of tr1] m have "length ys = length xs" by simp
  with f m show ?case by simp
qed

lemma Promise_all_length: "Promise_all rs = Inr xs \<Longrightarrow> length xs = length rs"
proof (induction rs arbitrary: xs)
  case Nil
  then show ?case by simp
next
  case (Cons r rs)
  then show ?case by (cases r) (auto split: sum.splits)
qed

lemma generateCoverImages_three:
  assumes "generateCoverImages e prompt tr = (Inr images, tr')"
  shows "length images = 3"
proof -
  obtain ps tr1 where
    m: "map_io (\<lambda>_. generateSingleImage e prompt True) [1, 2, 3 :: nat] (ensureApiKey e False tr)
          = (ps, tr1)"
    by (cases "map_io (\<lambda>_. generateSingleImage e prompt True) [1, 2, 3 :: nat]
                 (ensureApiKey e False tr)")
  have "length ps = 3"
    using map_io_length[of "\<lambda>_. generateSingleImage e prompt True" "[1, 2, 3 :: nat]"
            "ensureApiKey e False tr"] m
    by simp
  moreover from assms m have "Promise_all ps = Inr images"
    by (auto simp: generateCoverImages_def Let_def split: sum.splits)
  ultimately show ?thesis using Promise_all_length by fastforce
qed

lemma length3: "length xs = 3 \<Longrightarrow> \<exists>a b c. xs = [a, b, c]"
  by (cases xs; cases "tl xs"; cases "tl (tl xs)"; cases "tl (tl (tl xs))") auto

lemma startProcess_try_failure:
  "startProcess_try e s0 s tr = (Inl err, s', tr') \<Longrightarrow>
     step s' = step s \<and> isLoading s' = isLoading s"
  by (auto simp: startProcess_try_def Let_def split: prod.splits sum.splits)

lemma startProcess_try_success:
  assumes "researchTrends e (category (metadata s0)) (topic (metadata s0))
             (targetMarket (metadata s0)) (amazonMarketplace (metadata s0)) (language s0) tr
           = (Inr research, tr1)"
    and "generateBookText e (topic (metadata s0)) (category (metadata s0)) (author (metadata s0))
           (language s0) tr1 = (Inr textData, tr2)"
    and "generateCoverImages e
           (imagePrompt_of (category (metadata s0))
              (or_else (find_value (MARKETPLACES e) (amazonMarketplace (metadata s0))) ''Amazon'')
              (if targetMarket (metadata s0) \<noteq> [] then targetMarket (metadata s0)
               else category (metadata s0))
              (topic (metadata s0)) (to_string (trends research))) tr2 = (Inr images, tr3)"
  shows "startProcess_try e s0 s tr =
           (Inr (),
            s\<lparr>statusMessage := painting (TRANSLATIONS e (language s0)),
              groundingData := Some research,
              metadata := spread (metadata s) textData,
              generatedImages := images,
              coverImage := (case images of [] \<Rightarrow> None | i # _ \<Rightarrow> Some i),
              step := GENERATION\<rparr>,
            tr3)"
  unfolding startProcess_try_def Let_def
  by (simp only: assms prod.case sum.case) simp

text \<open>
  C3: with an empty topic or an empty author \<^verbatim>\<open>startProcess\<close> returns the state it was given,
  every field of it, and the log gains the alert and nothing else: no request, no call on the
  host surface.
\<close>

theorem startProcess_rejects_empty_input:
  "topic (metadata s) = [] \<or> author (metadata s) = [] \<Longrightarrow>
   startProcess e s tr = (s, tr @ [Alert ''Please enter a topic and author name.''])"
  by (auto simp: startProcess_def)

theorem startProcess_rejects_empty_input_witness:
  "topic (metadata initial_state) = [] \<and>
   startProcess (pipeline_env None) initial_state [] =
     (initial_state, [Alert ''Please enter a topic and author name.''])"
  using startProcess_rejects_empty_input [of initial_state "pipeline_env None" "[]"]
  by (simp add: fixtures)

text \<open>
  C6: with topic and author given, \<^verbatim>\<open>startProcess\<close> ends with the loading flag cleared, on
  every path. Where the chain throws, the stage is \<open>RESEARCH\<close> (set before the chain, and
  \<open>GENERATION\<close> is only set at its end) and the last thing done is the alert with the
  \<^verbatim>\<open>errorKey\<close> text of the current language.
\<close>

theorem startProcess_failure_handling:
  assumes "topic (metadata s) \<noteq> []" "author (metadata s) \<noteq> []"
  shows "\<not> isLoading (fst (startProcess e s tr)) \<and>
         (\<forall>err. fst (startProcess_try e s (s\<lparr>step := RESEARCH, isLoading := True\<rparr>) tr) = Inl err
            \<longrightarrow> step (fst (startProcess e s tr)) = RESEARCH \<and>
                last (snd (startProcess e s tr)) =
                  Alert (errorKey (TRANSLATIONS e (language s))))"
proof -
  obtain r s' tr' where
    t: "startProcess_try e s (s\<lparr>step := RESEARCH, isLoading := True\<rparr>) tr = (r, s', tr')"
    by (cases "startProcess_try e s (s\<lparr>step := RESEARCH, isLoading := True\<rparr>) tr")
  show ?thesis
  proof (cases r)
    case (Inl err)
    with t startProcess_try_failure[of e s _ tr err s' tr'] have "step s' = RESEARCH" by simp
    with assms t Inl show ?thesis by (simp add: startProcess_def Let_def)
  next
    case (Inr u)
    with assms t show ?thesis by (simp add: startProcess_def Let_def)
  qed
qed

theorem startProcess_failure_handling_witness:
  "topic (metadata stoic_state) \<noteq> [] \<and> author (metadata stoic_state) \<noteq> [] \<and>
   fst (startProcess_try offline_env stoic_state
          (stoic_state\<lparr>step := RESEARCH, isLoading := True\<rparr>) []) = Inl unreachable \<and>
   step (fst (startProcess offline_env stoic_state [])) = RESEARCH \<and>
   isLoading (fst (startProcess offline_env stoic_state [])) = False \<and>
   last (snd (startProcess offline_env stoic_state [])) =
     Alert ''Something went wrong. Check your API key.''"
  using startProcess_failure_handling [of stoic_state offline_env "[]"]
  by (simp add: fixtures model)

text \<open>
  C9: \<^verbatim>\<open>handleEditImage\<close> returns the state and the log it was given when there is no cover
  image (null or empty) or the instruction is empty. Otherwise, when the edit succeeds the
  cover image is the edited image and the instruction is empty, and when the edit fails both
  are as before. In every case the stage, the generated images, the metadata, the grounding
  data, the video and its prompt, and the language are as before.
\<close>

theorem handleEditImage_frame:
  "(coverImage s = None \<or> coverImage s = Some [] \<or> editPrompt s = [] \<longrightarrow>
      handleEditImage e s tr = (s, tr)) \<and>
   (\<forall>current. coverImage s = Some current \<and> current \<noteq> [] \<and> editPrompt s \<noteq> [] \<longrightarrow>
      (\<forall>newImage. fst (editCoverImage e current (editPrompt s) tr) = Inr newImage \<longrightarrow>
         coverImage (fst (handleEditImage e s tr)) = Some newImage \<and>
         editPrompt (fst (handleEditImage e s tr)) = []) \<and>
      (\<forall>err. fst (editCoverImage e current (editPrompt s) tr) = Inl err \<longrightarrow>
         coverImage (fst (handleEditImage e s tr)) = coverImage s \<and>
         editPrompt (fst (handleEditImage e s tr)) = editPrompt s)) \<and>
   step (fst (handleEditImage e s tr)) = step s \<and>
   generatedImages (fst (handleEditImage e s tr)) = generatedImages s \<and>
   metadata (fst (handleEditImage e s tr)) = metadata s \<and>
   groundingData (fst (handleEditImage e s tr)) = groundingData s \<and>
   videoUrl (fst (handleEditImage e s tr)) = videoUrl s \<and>
   videoPrompt (fst (handleEditImage e s tr)) = videoPrompt s \<and>
   language (fst (handleEditImage e s tr)) = language s"
  by (auto simp: handleEditImage_def Let_def split: option.splits sum.splits prod.splits)

theorem handleEditImage_frame_witness:
  "coverImage initial_state = None \<and>
   handleEditImage painter_env initial_state [] = (initial_state, []) \<and>
   coverImage editing_state = Some ''data:image/png;base64,AAAA'' \<and>
   editPrompt editing_state = ''make the sky darker'' \<and>
   fst (editCoverImage painter_env ''data:image/png;base64,AAAA'' ''make the sky darker'' []) =
     Inr ''data:image/png;base64,iVBORw0KGgo='' \<and>
   fst (handleEditImage painter_env editing_state []) =
     editing_state\<lparr>coverImage := Some ''data:image/png;base64,iVBORw0KGgo='', editPrompt := []\<rparr> \<and>
   fst (editCoverImage denied_env ''data:image/png;base64,AAAA'' ''make the sky darker'' []) =
     Inl forbidden \<and>
   handleEditImage denied_env editing_state [] =
     (editing_state,
      [GenerateContent ''gemini-2.5-flash-image'' [''AAAA'', ''make the sky darker''],
       Console_error ''Image editing failed'', Alert ''Edit failed.''])"
  using handleEditImage_frame [of initial_state painter_env "[]"]
    handleEditImage_frame [of editing_state painter_env "[]"]
    handleEditImage_frame [of editing_state denied_env "[]"]
  by (simp add: fixtures model)

text \<open>
  C1, as stated: in a run of \<^verbatim>\<open>startProcess\<close> whose three steps complete, the author is the
  one of the input and the title is the one of the text-generation result. It fails where the
  remote service answers the text request with \<^verbatim>\<open>{"author":"Marcus Aurelius"}\<close>: the three
  steps complete, the merge of line 152 overwrites the author, and the result has no title to
  take.
\<close>

theorem startProcess_author_title_counterexample:
  \<open>fst (startProcess_try (pipeline_env (Some ''{"author":"Marcus Aurelius"}'')) stoic_state
          (stoic_state\<lparr>step := RESEARCH, isLoading := True\<rparr>) []) = Inr () \<and>
   fst (generateBookText (pipeline_env (Some ''{"author":"Marcus Aurelius"}''))
          (topic (metadata stoic_state)) (category (metadata stoic_state))
          (author (metadata stoic_state)) (language stoic_state)
          (snd (researchTrends (pipeline_env (Some ''{"author":"Marcus Aurelius"}''))
                  (category (metadata stoic_state)) (topic (metadata stoic_state))
                  (targetMarket (metadata stoic_state)) (amazonMarketplace (metadata stoic_state))
                  (language stoic_state) [])))
     = Inr (empty_object\<lparr>p_author := Some ''Marcus Aurelius''\<rparr>) \<and>
   author (metadata stoic_state) = ''J. Doe'' \<and>
   author (metadata (fst (startProcess (pipeline_env (Some ''{"author":"Marcus Aurelius"}''))
                            stoic_state []))) = ''Marcus Aurelius'' \<and>
   p_title (empty_object\<lparr>p_author := Some ''Marcus Aurelius''\<rparr>) = None \<and>
   title (metadata (fst (startProcess (pipeline_env (Some ''{"author":"Marcus Aurelius"}''))
                           stoic_state []))) = title (metadata stoic_state)\<close>
  by (simp add: fixtures model)

text \<open>
  C1, amended: in a run of \<^verbatim>\<open>startProcess\<close> whose research, text-generation and
  image-generation steps all complete without throwing, the list of generated images has
  three elements, the cover image is the first of them, the stage is \<open>GENERATION\<close>, and the
  metadata are those of the input overwritten by the fields the text-generation result
  carries: the author is the result's author if it has one and the input author otherwise, the
  title is the result's title if it has one and the input title otherwise.
\<close>

theorem startProcess_success:
  assumes valid: "topic (metadata s) \<noteq> []" "author (metadata s) \<noteq> []"
    and completes: "fst (startProcess_try e s (s\<lparr>step := RESEARCH, isLoading := True\<rparr>) tr) = Inr ()"
    and textgen:
      "fst (generateBookText e (topic (metadata s)) (category (metadata s)) (author (metadata s))
              (language s)
              (snd (researchTrends e (category (metadata s)) (topic (metadata s))
                      (targetMarket (metadata s)) (amazonMarketplace (metadata s)) (language s) tr)))
       = Inr textData"
  shows "length (generatedImages (fst (startProcess e s tr))) = 3 \<and>
         coverImage (fst (startProcess e s tr)) =
           Some (generatedImages (fst (startProcess e s tr)) ! 0) \<and>
         step (fst (startProcess e s tr)) = GENERATION \<and>
         metadata (fst (startProcess e s tr)) = spread (metadata s) textData \<and>
         author (metadata (fst (startProcess e s tr))) =
           (case p_author textData of None \<Rightarrow> author (metadata s) | Some a \<Rightarrow> a) \<and>
         title (metadata (fst (startProcess e s tr))) =
           (case p_title textData of None \<Rightarrow> title (metadata s) | Some t \<Rightarrow> t)"
proof -
  let ?m = "metadata s"
  let ?s1 = "s\<lparr>step := RESEARCH, isLoading := True\<rparr>"
  obtain rr tr1 where
    r0: "researchTrends e (category ?m) (topic ?m) (targetMarket ?m) (amazonMarketplace ?m)
           (language s) tr = (rr, tr1)"
    by (cases "researchTrends e (category ?m) (topic ?m) (targetMarket ?m) (amazonMarketplace ?m)
                 (language s) tr")
  have "\<exists>g. rr = Inr g"
  proof (cases rr)
    case (Inl err)
    have "fst (startProcess_try e s ?s1 tr) = Inl err"
      unfolding startProcess_try_def Let_def
      by (simp only: r0 Inl prod.case sum.case fst_conv)
    with completes show ?thesis by simp
  next
    case (Inr g)
    then show ?thesis by blast
  qed
  then obtain g where
    r: "researchTrends e (category ?m) (topic ?m) (targetMarket ?m) (amazonMarketplace ?m)
          (language s) tr = (Inr g, tr1)"
    using r0 by blast
  from textgen r obtain tr2 where
    b: "generateBookText e (topic ?m) (category ?m) (author ?m) (language s) tr1
          = (Inr textData, tr2)"
    by (cases "generateBookText e (topic ?m) (category ?m) (author ?m) (language s) tr1") auto
  let ?p = "imagePrompt_of (category ?m)
              (or_else (find_value (MARKETPLACES e) (amazonMarketplace ?m)) ''Amazon'')
              (if targetMarket ?m \<noteq> [] then targetMarket ?m else category ?m)
              (topic ?m) (to_string (trends g))"
  obtain ri tr3 where i0: "generateCoverImages e ?p tr2 = (ri, tr3)"
    by (cases "generateCoverImages e ?p tr2")
  have "\<exists>images. ri = Inr images"
  proof (cases ri)
    case (Inl err)
    have "fst (startProcess_try e s ?s1 tr) = Inl err"
      unfolding startProcess_try_def Let_def
      by (simp only: r b i0 Inl prod.case sum.case fst_conv)
    with completes show ?thesis by simp
  next
    case (Inr images)
    then show ?thesis by blast
  qed
  then obtain images where i: "generateCoverImages e ?p tr2 = (Inr images, tr3)"
    using i0 by blast
  have "length images = 3" using generateCoverImages_three[OF i] .
  then obtain a b c where abc: "images = [a, b, c]" using length3 by blast
  have t: "startProcess_try e s ?s1 tr =
           (Inr (),
            ?s1\<lparr>statusMessage := painting (TRANSLATIONS e (language s)),
              groundingData := Some g,
              metadata := spread (metadata ?s1) textData,
              generatedImages := images,
              coverImage := (case images of [] \<Rightarrow> None | i # _ \<Rightarrow> Some i),
              step := GENERATION\<rparr>,
            tr3)"
    by (rule startProcess_try_success[OF r b i])
  have sp: "fst (startProcess e s tr) =
              ?s1\<lparr>statusMessage := [], groundingData := Some g,
                  metadata := spread (metadata s) textData,
                  generatedImages := [a, b, c], coverImage := Some a, step := GENERATION,
                  isLoading := False\<rparr>"
    using valid by (simp add: startProcess_def Let_def t abc)
  show ?thesis
    by (simp add: sp spread_def split: option.splits)
qed

theorem startProcess_success_witness:
  \<open>topic (metadata stoic_state) \<noteq> [] \<and> author (metadata stoic_state) \<noteq> [] \<and>
   fst (startProcess_try
          (pipeline_env (Some ''{"title":"The Calm Mind","subtitle":"Stoicism in ten lessons","description":"Start here."}''))
          stoic_state (stoic_state\<lparr>step := RESEARCH, isLoading := True\<rparr>) []) = Inr () \<and>
   generatedImages (fst (startProcess
          (pipeline_env (Some ''{"title":"The Calm Mind","subtitle":"Stoicism in ten lessons","description":"Start here."}''))
          stoic_state [])) =
     [''data:image/png;base64,iVBORw0KGgo='', ''data:image/png;base64,iVBORw0KGgo='',
      ''data:image/png;base64,iVBORw0KGgo=''] \<and>
   coverImage (fst (startProcess
          (pipeline_env (Some ''{"title":"The Calm Mind","subtitle":"Stoicism in ten lessons","description":"Start here."}''))
          stoic_state [])) = Some ''data:image/png;base64,iVBORw0KGgo='' \<and>
   step (fst (startProcess
          (pipeline_env (Some ''{"title":"The Calm Mind","subtitle":"Stoicism in ten lessons","description":"Start here."}''))
          stoic_state [])) = GENERATION \<and>
   author (metadata (fst (startProcess
          (pipeline_env (Some ''{"title":"The Calm Mind","subtitle":"Stoicism in ten lessons","description":"Start here."}''))
          stoic_state []))) = ''J. Doe'' \<and>
   title (metadata (fst (startProcess
          (pipeline_env (Some ''{"title":"The Calm Mind","subtitle":"Stoicism in ten lessons","description":"Start here."}''))
          stoic_state []))) = ''The Calm Mind''\<close>
  using startProcess_success
    [of stoic_state
        \<open>pipeline_env (Some ''{"title":"The Calm Mind","subtitle":"Stoicism in ten lessons","description":"Start here."}'')\<close>
        "[]"
        "empty_object\<lparr>p_title := Some ''The Calm Mind'',
                       p_subtitle := Some ''Stoicism in ten lessons'',
                       p_description := Some ''Start here.''\<rparr>"]
  by (simp add: fixtures model)

end
